theory Spec2Isabelle
  imports Main "HOL-Library.Sublist" "HOL-Library.Multiset"
begin

section \<open>Python values and strings\<close>

text \<open>
  A Python \<^verbatim>\<open>str\<close> is a \<^typ>\<open>string\<close>; one \<^typ>\<open>char\<close> stands for one code point
  (the model covers the code points below 256). The values that \<^verbatim>\<open>json.loads\<close>
  returns and \<^verbatim>\<open>json.dumps\<close> accepts are the type \<open>pyval\<close>; a \<^verbatim>\<open>dict\<close> is an
  association list in insertion order. A float is kept as the text that stands for it
  in JSON: nothing here computes with one.
\<close>

datatype pyval =
    PyNone
  | PyBool bool
  | PyInt int
  | PyFloat string
  | PyStr string
  | PyList "pyval list"
  | PyDict "(string \<times> pyval) list"

subsection \<open>String operations of the Python library\<close>

text \<open>
  \<^verbatim>\<open>str.find\<close>: the lowest index at which \<open>sub\<close> occurs, here as an option; at the end
  of the string only the empty string occurs.
\<close>

primrec find_sub :: "string \<Rightarrow> string \<Rightarrow> nat option" where
  "find_sub sub [] = (if sub = [] then Some 0 else None)"
| "find_sub sub (c # cs) =
     (if prefix sub (c # cs) then Some 0 else map_option Suc (find_sub sub cs))"

text \<open>\<^verbatim>\<open>str.rfind\<close>: the highest index at which \<open>sub\<close> occurs.\<close>

primrec rfind_sub :: "string \<Rightarrow> string \<Rightarrow> nat option" where
  "rfind_sub sub [] = (if sub = [] then Some 0 else None)"
| "rfind_sub sub (c # cs) =
     (case rfind_sub sub cs of
        Some k \<Rightarrow> Some (Suc k)
      | None \<Rightarrow> if prefix sub (c # cs) then Some 0 else None)"

text \<open>\<^verbatim>\<open>sub in s\<close> for two strings.\<close>

definition py_in :: "string \<Rightarrow> string \<Rightarrow> bool" where
  "py_in sub s = (find_sub sub s \<noteq> None)"

text \<open>
  \<^verbatim>\<open>s.find(sub, start)\<close>: a negative \<open>start\<close> counts from the end, a \<open>start\<close> beyond the
  end finds nothing, and the result is \<open>-1\<close> when \<open>sub\<close> does not occur.
\<close>

definition py_find :: "string \<Rightarrow> string \<Rightarrow> int \<Rightarrow> int" where
  "py_find s sub start =
     (let n = int (length s);
          i = (if start < 0 then max 0 (n + start) else start)
      in if n < i then - 1
         else case find_sub sub (drop (nat i) s) of
                None \<Rightarrow> - 1
              | Some k \<Rightarrow> i + int k)"

definition py_rfind :: "string \<Rightarrow> string \<Rightarrow> int" where
  "py_rfind s sub = (case rfind_sub sub s of None \<Rightarrow> - 1 | Some k \<Rightarrow> int k)"

text \<open>
  The slice \<^verbatim>\<open>s[i:j]\<close>: a negative bound counts from the end, both bounds are clipped to
  the string, and the slice is empty when the bounds cross.
\<close>

definition py_slice :: "string \<Rightarrow> int \<Rightarrow> int \<Rightarrow> string" where
  "py_slice s i j =
     (let n = int (length s);
          lo = (if i < 0 then max 0 (n + i) else min i n);
          hi = (if j < 0 then max 0 (n + j) else min j n)
      in take (nat (hi - lo)) (drop (nat lo) s))"

text \<open>
  \<^verbatim>\<open>str.isspace\<close> on one character, for the code points below 256: tab to carriage
  return, the separators \<^verbatim>\<open>0x1c\<close> to \<^verbatim>\<open>0x1f\<close>, space, \<^verbatim>\<open>0x85\<close> and \<^verbatim>\<open>0xa0\<close>.
\<close>

definition py_isspace :: "char \<Rightarrow> bool" where
  "py_isspace c =
     (let k = (of_char c :: nat)
      in (9 \<le> k \<and> k \<le> 13) \<or> (28 \<le> k \<and> k \<le> 32) \<or> k = 133 \<or> k = 160)"

text \<open>\<^verbatim>\<open>str.strip()\<close>: without leading and trailing whitespace.\<close>

definition py_strip :: "string \<Rightarrow> string" where
  "py_strip s = rev (dropWhile py_isspace (rev (dropWhile py_isspace s)))"

text \<open>\<^verbatim>\<open>sep.join(xs)\<close>.\<close>

fun py_join :: "string \<Rightarrow> string list \<Rightarrow> string" where
  "py_join sep [] = []"
| "py_join sep [x] = x"
| "py_join sep (x # y # ys) = x @ sep @ py_join sep (y # ys)"

text \<open>\<^verbatim>\<open>str(n)\<close> for a natural number: its decimal digits.\<close>

definition digit_char :: "nat \<Rightarrow> char" where
  "digit_char d = char_of (48 + d)"

function str_nat :: "nat \<Rightarrow> string" where
  "str_nat n = (if n < 10 then [digit_char n] else str_nat (n div 10) @ [digit_char (n mod 10)])"
  by pat_completeness auto
termination
  by (relation "measure (\<lambda>n. n)") auto

declare str_nat.simps [simp del]

section \<open>The \<^verbatim>\<open>json\<close> module\<close>

text \<open>
  \<^verbatim>\<open>json.dumps\<close> and \<^verbatim>\<open>json.loads\<close> belong to the Python library, not to the repository:
  the functions of the service take them as the arguments \<open>dumps\<close> and \<open>loads\<close>, and what
  is proved holds for every such pair. This section is an executable model of the two
  with the default options, for the places where a concrete library is needed. A
  float is written as the text it carries.
\<close>

definition hex_digit :: "nat \<Rightarrow> char" where
  "hex_digit d = (if d < 10 then char_of (48 + d) else char_of (87 + d))"

text \<open>
  One character inside a JSON string, with \<^verbatim>\<open>ensure_ascii\<close>: the quote, the backslash
  and the characters outside \<^verbatim>\<open>0x20\<close> to \<^verbatim>\<open>0x7e\<close> are escaped.
\<close>

definition escape_char :: "char \<Rightarrow> string" where
  "escape_char c =
     (let k = (of_char c :: nat) in
      if k = 34 then [CHR 0x5C, CHR 0x22]
      else if k = 92 then [CHR 0x5C, CHR 0x5C]
      else if k = 10 then [CHR 0x5C, CHR ''n'']
      else if k = 13 then [CHR 0x5C, CHR ''r'']
      else if k = 9 then [CHR 0x5C, CHR ''t'']
      else if k = 8 then [CHR 0x5C, CHR ''b'']
      else if k = 12 then [CHR 0x5C, CHR ''f'']
      else if 32 \<le> k \<and> k \<le> 126 then [c]
      else [CHR 0x5C, CHR ''u'', CHR ''0'', CHR ''0'', hex_digit (k div 16), hex_digit (k mod 16)])"

definition json_quote :: "string \<Rightarrow> string" where
  "json_quote s = [CHR 0x22] @ concat (map escape_char s) @ [CHR 0x22]"

definition str_int :: "int \<Rightarrow> string" where
  "str_int i = (if i < 0 then ''-'' @ str_nat (nat (- i)) else str_nat (nat i))"

fun json_dumps :: "pyval \<Rightarrow> string" where
  "json_dumps PyNone = ''null''"
| "json_dumps (PyBool b) = (if b then ''true'' else ''false'')"
| "json_dumps (PyInt i) = str_int i"
| "json_dumps (PyFloat text) = text"
| "json_dumps (PyStr s) = json_quote s"
| "json_dumps (PyList xs) = ''['' @ py_join '', '' (map json_dumps xs) @ '']''"
| "json_dumps (PyDict items) =
     ''{'' @ py_join '', '' (map (\<lambda>kv. json_quote (fst kv) @ '': '' @ json_dumps (snd kv)) items) @ ''}''"

text \<open>The decoder. Whitespace between the tokens is space, tab, newline, carriage return.\<close>

definition json_ws :: "char \<Rightarrow> bool" where
  "json_ws c = (c = CHR '' '' \<or> c = CHR 0x09 \<or> c = CHR 0x0A \<or> c = CHR 0x0D)"

definition skip_ws :: "string \<Rightarrow> string" where
  "skip_ws s = dropWhile json_ws s"

definition is_digit :: "char \<Rightarrow> bool" where
  "is_digit c = (48 \<le> (of_char c :: nat) \<and> (of_char c :: nat) \<le> 57)"

definition hex_val :: "char \<Rightarrow> nat option" where
  "hex_val c =
     (let k = (of_char c :: nat) in
      if 48 \<le> k \<and> k \<le> 57 then Some (k - 48)
      else if 97 \<le> k \<and> k \<le> 102 then Some (k - 87)
      else if 65 \<le> k \<and> k \<le> 70 then Some (k - 55)
      else None)"

definition hex4 :: "char \<Rightarrow> char \<Rightarrow> char \<Rightarrow> char \<Rightarrow> nat option" where
  "hex4 a b c d =
     (case (hex_val a, hex_val b, hex_val c, hex_val d) of
        (Some x, Some y, Some z, Some w) \<Rightarrow> Some (((x * 16 + y) * 16 + z) * 16 + w)
      | _ \<Rightarrow> None)"

definition unescape :: "char \<Rightarrow> char option" where
  "unescape e =
     (if e = CHR 0x22 \<or> e = CHR 0x5C \<or> e = CHR ''/'' then Some e
      else if e = CHR ''n'' then Some (CHR 0x0A)
      else if e = CHR ''r'' then Some (CHR 0x0D)
      else if e = CHR ''t'' then Some (CHR 0x09)
      else if e = CHR ''b'' then Some (CHR 0x08)
      else if e = CHR ''f'' then Some (CHR 0x0C)
      else None)"

text \<open>
  The rest of a string after its opening quote: the decoded characters and the input
  behind the closing quote. A raw control character is refused; an escape
  \<^verbatim>\<open>\uXXXX\<close> beyond the code points of the model is not decoded.
\<close>

fun scan_string :: "string \<Rightarrow> (string \<times> string) option" where
  "scan_string [] = None"
| "scan_string (c # cs) =
     (if c = CHR 0x22 then Some ([], cs)
      else if c = CHR 0x5C then
        (case cs of
           [] \<Rightarrow> None
         | e # es \<Rightarrow>
             if e = CHR ''u'' then
               (case es of
                  h1 # h2 # h3 # h4 # rest \<Rightarrow>
                    (case hex4 h1 h2 h3 h4 of
                       None \<Rightarrow> None
                     | Some k \<Rightarrow>
                         if k < 256
                         then map_option (\<lambda>(t, r). (char_of k # t, r)) (scan_string rest)
                         else None)
                | _ \<Rightarrow> None)
             else
               (case unescape e of
                  None \<Rightarrow> None
                | Some ch \<Rightarrow> map_option (\<lambda>(t, r). (ch # t, r)) (scan_string es)))
      else if (of_char c :: nat) < 32 then None
      else map_option (\<lambda>(t, r). (c # t, r)) (scan_string cs))"

definition digits_val :: "string \<Rightarrow> nat" where
  "digits_val ds = foldl (\<lambda>n c. 10 * n + ((of_char c :: nat) - 48)) 0 ds"

text \<open>
  A number: \<^verbatim>\<open>-?(0|[1-9][0-9]*)(\.[0-9]+)?([eE][-+]?[0-9]+)?\<close>, an \<open>int\<close> when it has
  neither a fraction nor an exponent.
\<close>

definition scan_number :: "string \<Rightarrow> (pyval \<times> string) option" where
  "scan_number s =
     (let (sgn, s1) = (case s of c # cs \<Rightarrow> if c = CHR ''-'' then (''-'', cs) else ([], s) | [] \<Rightarrow> ([], s));
          ip = (case s1 of c # cs \<Rightarrow> if c = CHR ''0'' then ''0'' else takeWhile is_digit s1 | [] \<Rightarrow> []);
          s2 = drop (length ip) s1;
          fp = (case s2 of c # cs \<Rightarrow>
                  if c = CHR ''.'' \<and> takeWhile is_digit cs \<noteq> [] then c # takeWhile is_digit cs else []
                | [] \<Rightarrow> []);
          s3 = drop (length fp) s2;
          ep = (case s3 of c # cs \<Rightarrow>
                  if c = CHR ''e'' \<or> c = CHR ''E'' then
                    (case cs of d # ds \<Rightarrow>
                       if (d = CHR ''+'' \<or> d = CHR ''-'') \<and> takeWhile is_digit ds \<noteq> []
                       then c # d # takeWhile is_digit ds
                       else if takeWhile is_digit cs \<noteq> [] then c # takeWhile is_digit cs else []
                     | [] \<Rightarrow> [])
                  else []
                | [] \<Rightarrow> []);
          s4 = drop (length ep) s3
      in if ip = [] then None
         else if fp = [] \<and> ep = [] then
           Some (PyInt (if sgn = [] then int (digits_val ip) else - int (digits_val ip)), s4)
         else Some (PyFloat (sgn @ ip @ fp @ ep), s4))"

text \<open>The constants, and the numbers after them, in the order the scanner tries them.\<close>

definition scan_literal :: "string \<Rightarrow> (pyval \<times> string) option" where
  "scan_literal s =
     (if prefix ''null'' s then Some (PyNone, drop 4 s)
      else if prefix ''true'' s then Some (PyBool True, drop 4 s)
      else if prefix ''false'' s then Some (PyBool False, drop 5 s)
      else case scan_number s of
             Some r \<Rightarrow> Some r
           | None \<Rightarrow>
               if prefix ''NaN'' s then Some (PyFloat ''NaN'', drop 3 s)
               else if prefix ''Infinity'' s then Some (PyFloat ''Infinity'', drop 8 s)
               else if prefix ''-Infinity'' s then Some (PyFloat ''-Infinity'', drop 9 s)
               else None)"

text \<open>\<^verbatim>\<open>d[k] = v\<close>: a key that is there keeps its place and gets the new value.\<close>

definition dict_set :: "string \<Rightarrow> pyval \<Rightarrow> (string \<times> pyval) list \<Rightarrow> (string \<times> pyval) list" where
  "dict_set k v items =
     (if k \<in> fst ` set items
      then map (\<lambda>kv. if fst kv = k then (k, v) else kv) items
      else items @ [(k, v)])"

text \<open>
  The recursive descent. The first argument bounds the depth of the recursion: each
  call uses up one of its cells, and \<open>json_loads\<close> below provides two cells for each
  character of the input.
\<close>

fun parse_value :: "unit list \<Rightarrow> string \<Rightarrow> (pyval \<times> string) option"
  and parse_elements :: "unit list \<Rightarrow> pyval list \<Rightarrow> string \<Rightarrow> (pyval \<times> string) option"
  and parse_members :: "unit list \<Rightarrow> (string \<times> pyval) list \<Rightarrow> string \<Rightarrow> (pyval \<times> string) option"
where
  "parse_value [] s = None"
| "parse_value (u # fuel) s =
     (case s of
        [] \<Rightarrow> None
      | c # cs \<Rightarrow>
          if c = CHR 0x22 then map_option (\<lambda>(t, r). (PyStr t, r)) (scan_string cs)
          else if c = CHR ''{'' then
            (case skip_ws cs of
               [] \<Rightarrow> None
             | d # ds \<Rightarrow> if d = CHR ''}'' then Some (PyDict [], ds) else parse_members fuel [] (d # ds))
          else if c = CHR ''['' then
            (case skip_ws cs of
               [] \<Rightarrow> None
             | d # ds \<Rightarrow> if d = CHR '']'' then Some (PyList [], ds) else parse_elements fuel [] (d # ds))
          else scan_literal s)"
| "parse_elements [] acc s = None"
| "parse_elements (u # fuel) acc s =
     (case parse_value fuel s of
        None \<Rightarrow> None
      | Some (v, r) \<Rightarrow>
          (case skip_ws r of
             [] \<Rightarrow> None
           | d # ds \<Rightarrow>
               if d = CHR '','' then parse_elements fuel (acc @ [v]) (skip_ws ds)
               else if d = CHR '']'' then Some (PyList (acc @ [v]), ds)
               else None))"
| "parse_members [] acc s = None"
| "parse_members (u # fuel) acc s =
     (case s of
        [] \<Rightarrow> None
      | c # cs \<Rightarrow>
          if c \<noteq> CHR 0x22 then None
          else
            (case scan_string cs of
               None \<Rightarrow> None
             | Some (k, r) \<Rightarrow>
                 (case skip_ws r of
                    [] \<Rightarrow> None
                  | d # ds \<Rightarrow>
                      if d \<noteq> CHR '':'' then None
                      else
                        (case parse_value fuel (skip_ws ds) of
                           None \<Rightarrow> None
                         | Some (v, r') \<Rightarrow>
                             (case skip_ws r' of
                                [] \<Rightarrow> None
                              | e # es \<Rightarrow>
                                  if e = CHR '','' then parse_members fuel (dict_set k v acc) (skip_ws es)
                                  else if e = CHR ''}'' then Some (PyDict (dict_set k v acc), es)
                                  else None)))))"

text \<open>
  \<^verbatim>\<open>json.loads\<close> on a string: one value between optional whitespace and nothing else;
  \<open>None\<close> where the library raises.
\<close>

definition json_loads :: "string \<Rightarrow> pyval option" where
  "json_loads s =
     (case parse_value (replicate (2 * length s + 2) ()) (skip_ws s) of
        None \<Rightarrow> None
      | Some (v, r) \<Rightarrow> if skip_ws r = [] then Some v else None)"

section \<open>The store: table \<^verbatim>\<open>email_history\<close>\<close>

text \<open>
  \<^verbatim>\<open>EmailBrief\<close> (ultra_simple_backend.py, lines 17-22).
\<close>

record EmailBrief =
  recipients :: "string list"
  purpose :: string
  tone :: string
  constraints :: "string option"

text \<open>
  A clock reading of \<^verbatim>\<open>datetime.now()\<close>, in microseconds: the order of the readings is
  the order of the stored timestamps.
\<close>

type_synonym timestamp = nat

text \<open>
  One row of the table created by \<^verbatim>\<open>setup_database\<close> (lines 38-60): the eleven
  columns, in the order of the \<^verbatim>\<open>CREATE TABLE\<close>. Column \<^verbatim>\<open>id\<close> is \<open>row_id\<close>. The only
  column the code ever writes \<^verbatim>\<open>NULL\<close> into is \<^verbatim>\<open>final_email\<close>. The fields are read
  with their qualified names where a field of \<open>EmailBrief\<close> has the same name.
\<close>

record email_history =
  row_id :: string
  thread_id :: string
  recipients :: string
  subject :: string
  purpose :: string
  tone :: string
  draft :: string
  final_email :: "string option"
  status :: string
  created_at :: timestamp
  updated_at :: timestamp

text \<open>The table is the list of its rows in \<^verbatim>\<open>rowid\<close> order, the order of a table scan.\<close>

type_synonym db = "email_history list"

text \<open>
  \<^verbatim>\<open>INSERT OR REPLACE\<close>: the rows that conflict on the primary key \<^verbatim>\<open>id\<close> are deleted,
  and the new row is inserted with a fresh, largest \<^verbatim>\<open>rowid\<close>.
\<close>

definition insert_or_replace :: "email_history \<Rightarrow> db \<Rightarrow> db" where
  "insert_or_replace row rows = filter (\<lambda>r. row_id r \<noteq> row_id row) rows @ [row]"

text \<open>
  \<^verbatim>\<open>save_email\<close> (lines 219-242). \<open>dumps\<close> is the library's \<^verbatim>\<open>json.dumps\<close>; \<open>now1\<close> and
  \<open>now2\<close> are the two readings of \<^verbatim>\<open>datetime.now()\<close>. Column \<^verbatim>\<open>final_email\<close> is not in
  the column list of the statement, so the new row has \<^verbatim>\<open>NULL\<close> there.
\<close>

definition save_email ::
  "(pyval \<Rightarrow> string) \<Rightarrow> timestamp \<Rightarrow> timestamp \<Rightarrow>
   string \<Rightarrow> EmailBrief \<Rightarrow> string \<Rightarrow> string \<Rightarrow> string \<Rightarrow> db \<Rightarrow> db" where
  "save_email dumps now1 now2 tid brief subj body st rows =
     insert_or_replace
       \<lparr> row_id = tid,
         thread_id = tid,
         recipients = dumps (PyList (map PyStr (EmailBrief.recipients brief))),
         subject = subj,
         purpose = EmailBrief.purpose brief,
         tone = EmailBrief.tone brief,
         draft = body,
         final_email = None,
         status = st,
         created_at = now1,
         updated_at = now2 \<rparr>
       rows"

text \<open>
  \<^verbatim>\<open>update_email_status\<close> (lines 244-258). The argument \<^verbatim>\<open>final_email: dict = None\<close> is
  \<open>None\<close> or the items of a dict; \<^verbatim>\<open>json.dumps(final_email) if final_email else None\<close>
  is \<^verbatim>\<open>None\<close> for \<^verbatim>\<open>None\<close> and for the empty dict, which is falsy.
\<close>

definition final_email_json :: "(pyval \<Rightarrow> string) \<Rightarrow> (string \<times> pyval) list option \<Rightarrow> string option" where
  "final_email_json dumps fe =
     (case fe of
        None \<Rightarrow> None
      | Some items \<Rightarrow> if items = [] then None else Some (dumps (PyDict items)))"

definition update_email_status ::
  "(pyval \<Rightarrow> string) \<Rightarrow> timestamp \<Rightarrow>
   string \<Rightarrow> string \<Rightarrow> (string \<times> pyval) list option \<Rightarrow> db \<Rightarrow> db" where
  "update_email_status dumps now tid st fe rows =
     map (\<lambda>r. if thread_id r = tid
              then r\<lparr> status := st, final_email := final_email_json dumps fe, updated_at := now \<rparr>
              else r)
         rows"

text \<open>
  \<^verbatim>\<open>ORDER BY created_at DESC\<close>: each row of the scan is put behind the rows already
  sorted whose timestamp is not smaller (SQL leaves the order of rows with equal
  timestamps open; here they keep the order of the scan).
\<close>

fun insert_desc :: "email_history \<Rightarrow> db \<Rightarrow> db" where
  "insert_desc x [] = [x]"
| "insert_desc x (y # ys) =
     (if created_at y < created_at x then x # y # ys else y # insert_desc x ys)"

definition order_by_created_at_desc :: "db \<Rightarrow> db" where
  "order_by_created_at_desc rows = foldl (\<lambda>sorted r. insert_desc r sorted) [] rows"

text \<open>
  \<^verbatim>\<open>get_email_history\<close> (lines 260-274): every row of the table, as a dict of its eleven
  columns (here the row itself), in the order of the query.
\<close>

definition get_email_history :: "db \<Rightarrow> email_history list" where
  "get_email_history rows = order_by_created_at_desc rows"

text \<open>
  \<^verbatim>\<open>get_thread_by_id\<close> (lines 276-294): \<^verbatim>\<open>fetchone\<close> gives the first row of the scan whose
  \<^verbatim>\<open>thread_id\<close> is the argument, or \<^verbatim>\<open>None\<close>.
\<close>

definition get_thread_by_id :: "string \<Rightarrow> db \<Rightarrow> email_history option" where
  "get_thread_by_id tid rows = find (\<lambda>r. thread_id r = tid) rows"

text \<open>
  The states of the table that the service can reach: \<^verbatim>\<open>setup_database\<close> creates it
  empty, and \<^verbatim>\<open>save_email\<close> and \<^verbatim>\<open>update_email_status\<close> are the only writers.
\<close>

inductive reachable :: "(pyval \<Rightarrow> string) \<Rightarrow> db \<Rightarrow> bool" for dumps :: "pyval \<Rightarrow> string" where
  reach_empty: "reachable dumps []"
| reach_save: "reachable dumps rows \<Longrightarrow>
               reachable dumps (save_email dumps now1 now2 tid brief subj body st rows)"
| reach_update: "reachable dumps rows \<Longrightarrow>
                 reachable dumps (update_email_status dumps now tid st fe rows)"

section \<open>The generation client\<close>

subsection \<open>\<^verbatim>\<open>call_gemini_api\<close>\<close>

text \<open>
  What the three calls of the \<^verbatim>\<open>try\<close> block (\<^verbatim>\<open>requests.post\<close>, \<^verbatim>\<open>raise_for_status\<close>,
  \<^verbatim>\<open>response.json\<close>) come to: one of them raises a \<^verbatim>\<open>RequestException\<close> (the transport
  fails, or the provider answers with an error status), one raises another
  exception, or the body is decoded. The strings are \<^verbatim>\<open>str(e)\<close>.
\<close>

datatype http_outcome =
    RequestException string
  | OtherException string
  | JsonBody pyval

text \<open>
  The exceptions the uses of a decoded value can raise, with what the message depends
  on: the operation and its operand, or the missing key.
\<close>

datatype py_op = OpIn | OpLen | OpSubscript pyval | OpStrip

datatype py_exn =
    TypeError py_op pyval
  | KeyError pyval
  | IndexError pyval
  | AttributeError py_op pyval

definition bind_exn :: "py_exn + 'a \<Rightarrow> ('a \<Rightarrow> py_exn + 'b) \<Rightarrow> py_exn + 'b" where
  "bind_exn m f = (case m of Inl e \<Rightarrow> Inl e | Inr x \<Rightarrow> f x)"

text \<open>\<^verbatim>\<open>key in x\<close> for a string \<open>key\<close>.\<close>

fun py_contains :: "string \<Rightarrow> pyval \<Rightarrow> py_exn + bool" where
  "py_contains k (PyDict items) = Inr (k \<in> fst ` set items)"
| "py_contains k (PyList xs) = Inr (PyStr k \<in> set xs)"
| "py_contains k (PyStr s) = Inr (py_in k s)"
| "py_contains k v = Inl (TypeError OpIn v)"

text \<open>\<^verbatim>\<open>len(x)\<close>.\<close>

fun py_len :: "pyval \<Rightarrow> py_exn + nat" where
  "py_len (PyDict items) = Inr (length items)"
| "py_len (PyList xs) = Inr (length xs)"
| "py_len (PyStr s) = Inr (length s)"
| "py_len v = Inl (TypeError OpLen v)"

text \<open>\<^verbatim>\<open>x[key]\<close> for a string \<open>key\<close>: only a dict has string keys.\<close>

fun py_item :: "pyval \<Rightarrow> string \<Rightarrow> py_exn + pyval" where
  "py_item (PyDict items) k =
     (case map_of items k of None \<Rightarrow> Inl (KeyError (PyStr k)) | Some v \<Rightarrow> Inr v)"
| "py_item v k = Inl (TypeError (OpSubscript (PyStr k)) v)"

text \<open>
  \<^verbatim>\<open>x[0]\<close>: the first element of a list, the first character of a string; a decoded
  dict has string keys only.
\<close>

fun py_first :: "pyval \<Rightarrow> py_exn + pyval" where
  "py_first (PyList xs) = (case xs of [] \<Rightarrow> Inl (IndexError (PyList xs)) | x # _ \<Rightarrow> Inr x)"
| "py_first (PyStr s) = (case s of [] \<Rightarrow> Inl (IndexError (PyStr s)) | c # _ \<Rightarrow> Inr (PyStr [c]))"
| "py_first (PyDict items) = Inl (KeyError (PyInt 0))"
| "py_first v = Inl (TypeError (OpSubscript (PyInt 0)) v)"

text \<open>
  Lines 92-95: the text of the first part of the first candidate; \<open>Inr None\<close> when a
  test fails and control reaches line 97.
\<close>

definition candidate_text :: "pyval \<Rightarrow> py_exn + pyval option" where
  "candidate_text result =
     bind_exn (py_contains ''candidates'' result) (\<lambda>has_candidates.
     if \<not> has_candidates then Inr None else
     bind_exn (py_item result ''candidates'') (\<lambda>candidates.
     bind_exn (py_len candidates) (\<lambda>n.
     if \<not> 0 < n then Inr None else
     bind_exn (py_first candidates) (\<lambda>candidate.
     bind_exn (py_contains ''content'' candidate) (\<lambda>has_content.
     if \<not> has_content then Inr None else
     bind_exn (py_item candidate ''content'') (\<lambda>content.
     bind_exn (py_contains ''parts'' content) (\<lambda>has_parts.
     if \<not> has_parts then Inr None else
     bind_exn (py_item content ''parts'') (\<lambda>parts.
     bind_exn (py_first parts) (\<lambda>part.
     bind_exn (py_item part ''text'') (\<lambda>text.
     Inr (Some text)))))))))))"

text \<open>
  \<^verbatim>\<open>call_gemini_api\<close> (lines 62-102). \<open>http\<close> is the provider: the outcome of the
  request for a prompt. \<open>exn_str\<close> is the runtime's \<^verbatim>\<open>str(e)\<close>. Every path returns a
  value; both \<^verbatim>\<open>except\<close> clauses return a string.
\<close>

definition call_gemini_api :: "(py_exn \<Rightarrow> string) \<Rightarrow> (string \<Rightarrow> http_outcome) \<Rightarrow> string \<Rightarrow> pyval" where
  "call_gemini_api exn_str http prompt =
     (case http prompt of
        RequestException msg \<Rightarrow> PyStr (''API Error: '' @ msg)
      | OtherException msg \<Rightarrow> PyStr (''Error: '' @ msg)
      | JsonBody result \<Rightarrow>
          (case candidate_text result of
             Inl e \<Rightarrow> PyStr (''Error: '' @ exn_str e)
           | Inr (Some text) \<Rightarrow> text
           | Inr None \<Rightarrow> PyStr ''Error: Could not generate response''))"

subsection \<open>\<^verbatim>\<open>process_requirements\<close>\<close>

text \<open>
  Lines 127-136: the text handed to \<^verbatim>\<open>json.loads\<close>, for a response that is a string.
\<close>

definition extract_json_str :: "string \<Rightarrow> string" where
  "extract_json_str response =
     (if py_in ''```json'' response then
        let json_start = py_find response ''```json'' 0 + 7;
            json_end = py_find response ''```'' json_start
        in py_strip (py_slice response json_start json_end)
      else if py_in ''{'' response \<and> py_in ''}'' response then
        let json_start = py_find response ''{'' 0;
            json_end = py_rfind response ''}'' + 1
        in py_slice response json_start json_end
      else response)"

text \<open>\<^verbatim>\<open>d.get(key, default)\<close>.\<close>

definition dict_get :: "(string \<times> pyval) list \<Rightarrow> string \<Rightarrow> pyval \<Rightarrow> pyval" where
  "dict_get items k dflt = (case map_of items k of None \<Rightarrow> dflt | Some v \<Rightarrow> v)"

text \<open>
  The body of the \<^verbatim>\<open>try\<close> (lines 125-139): \<open>Some (parsed_context, subject)\<close>, or \<open>None\<close>
  when a statement of the body raises; the bare \<^verbatim>\<open>except:\<close> does not look at the
  exception. \<open>loads\<close> is the library's \<^verbatim>\<open>json.loads\<close>, \<open>None\<close> where it raises. A result
  that is not a dict has no \<^verbatim>\<open>get\<close>. A response that is not a string raises in each
  case, at \<^verbatim>\<open>in\<close>, at \<^verbatim>\<open>find\<close> or in \<^verbatim>\<open>json.loads\<close>.
\<close>

definition try_parse_context :: "(string \<Rightarrow> pyval option) \<Rightarrow> pyval \<Rightarrow> (pyval \<times> pyval) option" where
  "try_parse_context loads response =
     (case response of
        PyStr text \<Rightarrow>
          (case loads (extract_json_str text) of
             Some (PyDict items) \<Rightarrow>
               Some (PyDict items, dict_get items ''subject_suggestion'' (PyStr []))
           | _ \<Rightarrow> None)
      | _ \<Rightarrow> None)"

text \<open>
  \<^verbatim>\<open>process_requirements\<close>, lines 124-147: from the value \<open>response\<close> of
  \<^verbatim>\<open>self.call_gemini_api(prompt)\<close> (line 122) to the returned dict.
\<close>

definition process_requirements ::
  "(string \<Rightarrow> pyval option) \<Rightarrow> (pyval \<Rightarrow> string) \<Rightarrow> EmailBrief \<Rightarrow> pyval \<Rightarrow> pyval" where
  "process_requirements loads dumps brief response =
     (case try_parse_context loads response of
        Some (parsed_context, subj) \<Rightarrow>
          PyDict [(''context'', PyStr (dumps parsed_context)), (''subject'', subj)]
      | None \<Rightarrow>
          let subj = PyStr (''Regarding: '' @ take 50 (EmailBrief.purpose brief) @ ''...'');
              parsed_context =
                PyDict [(''purpose'', PyStr (EmailBrief.purpose brief)),
                        (''subject_suggestion'', subj)]
          in PyDict [(''context'', PyStr (dumps parsed_context)), (''subject'', subj)])"

subsection \<open>\<^verbatim>\<open>improve_draft\<close>\<close>

text \<open>The f-string of lines 179-191; every line of the literal is indented by eight spaces.\<close>

definition improve_prompt :: "string \<Rightarrow> string \<Rightarrow> EmailBrief \<Rightarrow> string" where
  "improve_prompt original_draft feedback brief =
     (let nl = [CHR 0x0A]; ind = ''        '' in
      nl @ ind @ ''You are helping to improve an email draft based on user feedback.''
      @ nl @ ind
      @ nl @ ind @ ''Original Draft: '' @ original_draft
      @ nl @ ind @ ''User Feedback: '' @ feedback
      @ nl @ ind
      @ nl @ ind @ ''Email Purpose: '' @ EmailBrief.purpose brief
      @ nl @ ind @ ''Tone: '' @ EmailBrief.tone brief
      @ nl @ ind @ ''Recipients: '' @ py_join '', '' (EmailBrief.recipients brief)
      @ nl @ ind
      @ nl @ ind @ ''Please create an improved version that addresses the feedback while maintaining the professional tone and purpose.''
      @ nl @ ind @ ''Return only the improved email body with no extra formatting or explanations.''
      @ nl @ ind)"

text \<open>
  \<^verbatim>\<open>improve_draft\<close> (lines 177-194): the stripped answer of the provider. The method
  only calls the provider: it reads and writes nothing of the store. An answer that
  is not a string has no \<^verbatim>\<open>strip\<close>.
\<close>

definition improve_draft ::
  "(py_exn \<Rightarrow> string) \<Rightarrow> (string \<Rightarrow> http_outcome) \<Rightarrow> string \<Rightarrow> string \<Rightarrow> EmailBrief \<Rightarrow> py_exn + string" where
  "improve_draft exn_str http original_draft feedback brief =
     (case call_gemini_api exn_str http (improve_prompt original_draft feedback brief) of
        PyStr response \<Rightarrow> Inr (py_strip response)
      | v \<Rightarrow> Inl (AttributeError OpStrip v))"

section \<open>The delivery client: \<^verbatim>\<open>EmailService.send_email\<close>\<close>

text \<open>\<^verbatim>\<open>self.smtp_config\<close>.\<close>

record smtp_config =
  smtp_server :: string
  smtp_port :: nat
  use_tls :: bool

text \<open>
  One run of the \<^verbatim>\<open>try\<close> block of lines 78-105: the message that is built and the
  session that is opened (connect, \<^verbatim>\<open>starttls\<close> when configured, \<^verbatim>\<open>login\<close>, \<^verbatim>\<open>sendmail\<close>).
\<close>

record delivery =
  config :: smtp_config
  login_user :: string
  login_password :: string
  mail_from :: string
  rcpt_to :: "string list"
  header_subject :: string
  header_from :: string
  header_to :: string
  body_text :: string
  body_subtype :: string

text \<open>
  How the block ends: it completes, or a statement raises; the two exceptions with an
  \<^verbatim>\<open>except\<close> clause of their own, and every other \<^verbatim>\<open>Exception\<close> with its \<^verbatim>\<open>str(e)\<close>.
\<close>

datatype smtp_outcome =
    Delivered
  | SMTPAuthenticationError
  | SMTPRecipientsRefused
  | OtherError string

text \<open>\<^verbatim>\<open>a or b\<close> and the truth value of an optional string: \<^verbatim>\<open>None\<close> and \<^verbatim>\<open>""\<close> are falsy.\<close>

definition truthy :: "string option \<Rightarrow> bool" where
  "truthy x = (case x of None \<Rightarrow> False | Some s \<Rightarrow> s \<noteq> [])"

definition py_or :: "string option \<Rightarrow> string option \<Rightarrow> string option" where
  "py_or a b = (if truthy a then a else b)"

definition send_result :: "bool \<Rightarrow> string \<Rightarrow> pyval" where
  "send_result ok msg = PyDict [(''success'', PyBool ok), (''message'', PyStr msg)]"

text \<open>
  \<^verbatim>\<open>send_email\<close> (lines 46-121). \<open>env\<close> is \<^verbatim>\<open>os.getenv\<close>, \<open>smtp\<close> the mail transport (how the
  \<^verbatim>\<open>try\<close> block ends for a delivery), \<open>attempts\<close> the deliveries attempted so far. The
  result is the returned dict and the deliveries attempted afterwards.
\<close>

definition send_email ::
  "(string \<Rightarrow> string option) \<Rightarrow> smtp_config \<Rightarrow> (delivery \<Rightarrow> smtp_outcome) \<Rightarrow>
   string \<Rightarrow> string \<Rightarrow> string list \<Rightarrow> string option \<Rightarrow> string option \<Rightarrow> bool \<Rightarrow>
   delivery list \<Rightarrow> pyval \<times> delivery list" where
  "send_email env cfg smtp subj body rcpts sender_email sender_password is_html attempts =
     (let sender_email = py_or sender_email (env ''EMAIL_USERNAME'');
          sender_password = py_or sender_password (env ''EMAIL_PASSWORD'')
      in if \<not> truthy sender_email \<or> \<not> truthy sender_password then
           (send_result False
              ''Email credentials not provided. Check EMAIL_USERNAME and EMAIL_PASSWORD in .env file'',
            attempts)
         else
           let d = \<lparr> config = cfg,
                     login_user = the sender_email,
                     login_password = the sender_password,
                     mail_from = the sender_email,
                     rcpt_to = rcpts,
                     header_subject = subj,
                     header_from = the sender_email,
                     header_to = py_join '', '' rcpts,
                     body_text = body,
                     body_subtype = (if is_html then ''html'' else ''plain'') \<rparr>
           in (case smtp d of
                 Delivered \<Rightarrow>
                   send_result True
                     (''Email sent successfully to '' @ str_nat (length rcpts) @ '' recipient(s)'')
               | SMTPAuthenticationError \<Rightarrow>
                   send_result False
                     ''Email authentication failed. Check your email and password/app password.''
               | SMTPRecipientsRefused \<Rightarrow>
                   send_result False
                     ''One or more recipients were refused. Check email addresses.''
               | OtherError msg \<Rightarrow>
                   send_result False (''Failed to send email: '' @ msg),
               attempts @ [d]))"

section \<open>The specification's state machine\<close>

text \<open>
  The transitions of section 4.2 of the specification and, in the specification's
  words, the states from which each is permitted (\<^verbatim>\<open>start\<close> creates the thread and has
  no state before it). The service has no such table: this definition is what the
  specification says, for comparison with the code.
\<close>

datatype transition =
    ApproveContext
  | RequestChanges
  | EditDraft
  | ApproveDraft
  | Send
  | RetrySend
  | Reject

fun spec_valid_from :: "transition \<Rightarrow> string list" where
  "spec_valid_from ApproveContext = [''context_ready'']"
| "spec_valid_from RequestChanges = [''draft_ready'']"
| "spec_valid_from EditDraft = [''draft_ready'']"
| "spec_valid_from ApproveDraft = [''draft_ready'']"
| "spec_valid_from Send = [''approved'']"
| "spec_valid_from RetrySend = [''send_failed'']"
| "spec_valid_from Reject = [''context_ready'', ''draft_ready'']"

definition spec_permits :: "string \<Rightarrow> transition \<Rightarrow> bool" where
  "spec_permits st t = (st \<in> set (spec_valid_from t))"

text \<open>The statuses for which the specification wants \<^verbatim>\<open>finalEmail\<close> set.\<close>

definition delivery_status :: "string \<Rightarrow> bool" where
  "delivery_status st = (st = ''sent'' \<or> st = ''send_failed'')"

text \<open>
  The states of the table reached by calls whose arguments agree with each other the
  way those of the front end do: \<^verbatim>\<open>save_email\<close> with a status that is not a delivery
  status (the front end passes \<^verbatim>\<open>draft\<close> and \<^verbatim>\<open>saved\<close>), and \<^verbatim>\<open>update_email_status\<close> with a
  non-empty \<^verbatim>\<open>final_email\<close> exactly when the status is a delivery status (the front end
  passes \<^verbatim>\<open>sent\<close> with the email sent).
\<close>

inductive reachable_agreeing :: "(pyval \<Rightarrow> string) \<Rightarrow> db \<Rightarrow> bool" for dumps :: "pyval \<Rightarrow> string" where
  agree_empty: "reachable_agreeing dumps []"
| agree_save: "reachable_agreeing dumps rows \<Longrightarrow> \<not> delivery_status st \<Longrightarrow>
               reachable_agreeing dumps (save_email dumps now1 now2 tid brief subj body st rows)"
| agree_update: "reachable_agreeing dumps rows \<Longrightarrow>
                 delivery_status st = (fe \<noteq> None \<and> fe \<noteq> Some []) \<Longrightarrow>
                 reachable_agreeing dumps (update_email_status dumps now tid st fe rows)"

section \<open>Example data\<close>

text \<open>A brief, a stored thread that has been sent, and a mail configuration.\<close>

definition example_brief :: EmailBrief where
  "example_brief =
     \<lparr> EmailBrief.recipients = [''a@x.com'', ''b@y.org''],
       EmailBrief.purpose = ''Schedule a meeting with the whole team about the quarterly plan'',
       EmailBrief.tone = ''professional'',
       constraints = None \<rparr>"

definition example_sent_row :: email_history where
  "example_sent_row =
     \<lparr> row_id = ''t1'', thread_id = ''t1'', recipients = ''[]'', subject = ''Hi'',
       purpose = ''P'', tone = ''formal'', draft = ''D'', final_email = Some ''{}'',
       status = ''sent'', created_at = 1, updated_at = 2 \<rparr>"

definition example_config :: smtp_config where
  "example_config = \<lparr> smtp_server = ''smtp.gmail.com'', smtp_port = 587, use_tls = True \<rparr>"

section \<open>Lemmas about the string operations\<close>

lemma py_in_iff_sublist: "py_in sub s \<longleftrightarrow> sublist sub s"
  unfolding py_in_def
  by (induction s) (auto simp: sublist_Cons_right)

lemma sublist_single: "sublist [c] s \<longleftrightarrow> c \<in> set s"
  by (induction s) (auto simp: sublist_Cons_right)

lemma py_in_char: "py_in [c] s \<longleftrightarrow> c \<in> set s"
  by (simp add: py_in_iff_sublist sublist_single)

text \<open>
  \<open>find_sub\<close> gives the first occurrence: where \<open>sub\<close> stands behind \<open>pre\<close> and begins
  at no earlier position, the index found is the length of \<open>pre\<close>.
\<close>

lemma find_sub_first:
  "\<forall>j<length pre. \<not> prefix sub (drop j (pre @ sub @ rest)) \<Longrightarrow>
   find_sub sub (pre @ sub @ rest) = Some (length pre)"
proof (induction pre)
  case Nil
  have "prefix sub (sub @ rest)" by simp
  then show ?case by (cases "sub @ rest") auto
next
  case (Cons p pre)
  from Cons.prems have "\<not> prefix sub (drop 0 ((p # pre) @ sub @ rest))" by blast
  then have here: "\<not> prefix sub (p # pre @ sub @ rest)" by simp
  have "\<forall>j<length pre. \<not> prefix sub (drop j (pre @ sub @ rest))"
  proof (intro allI impI)
    fix j assume "j < length pre"
    then have "Suc j < length (p # pre)" by simp
    with Cons.prems have "\<not> prefix sub (drop (Suc j) ((p # pre) @ sub @ rest))" by blast
    then show "\<not> prefix sub (drop j (pre @ sub @ rest))" by simp
  qed
  then have "find_sub sub (pre @ sub @ rest) = Some (length pre)" by (rule Cons.IH)
  with here show ?case by simp
qed

lemma find_sub_char: "c \<notin> set pre \<Longrightarrow> find_sub [c] (pre @ c # rest) = Some (length pre)"
  by (induction pre) auto

lemma rfind_sub_char_None: "c \<notin> set s \<Longrightarrow> rfind_sub [c] s = None"
  by (induction s) auto

lemma rfind_sub_char: "c \<notin> set post \<Longrightarrow> rfind_sub [c] (pre @ c # post) = Some (length pre)"
  by (induction pre) (auto simp: rfind_sub_char_None)

lemma py_slice_middle:
  "py_slice (a @ b @ c) (int (length a)) (int (length a) + int (length b)) = b"
  by (simp add: py_slice_def Let_def)

lemma py_slice_crossed: "0 \<le> i \<Longrightarrow> 0 \<le> j \<Longrightarrow> j \<le> i \<Longrightarrow> py_slice s i j = []"
  by (auto simp: py_slice_def Let_def min_def)

lemma py_find_first:
  assumes "\<forall>j<length pre. \<not> prefix sub (drop j (pre @ sub @ rest))"
  shows "py_find (pre @ sub @ rest) sub 0 = int (length pre)"
  using find_sub_first [OF assms] by (simp add: py_find_def Let_def)

lemma py_find_from:
  assumes "\<forall>j<length mid. \<not> prefix sub (drop j (mid @ sub @ rest))"
  shows "py_find (pre @ mid @ sub @ rest) sub (int (length pre)) = int (length pre) + int (length mid)"
  using find_sub_first [OF assms] by (simp add: py_find_def Let_def)

lemma find_sub_None_iff: "find_sub sub s = None \<longleftrightarrow> \<not> sublist sub s"
  using py_in_iff_sublist [of sub s] unfolding py_in_def by (cases "find_sub sub s") auto

text \<open>
  A string that occurs has a first occurrence: the decomposition that the cases of
  \<open>extract_json_str\<close> below start from exists whenever \<open>sub\<close> occurs.
\<close>

lemma first_occurrence_exists:
  "sublist sub s \<Longrightarrow>
   \<exists>pre rest. s = pre @ sub @ rest \<and> (\<forall>j<length pre. \<not> prefix sub (drop j s))"
proof (induction s)
  case Nil
  then show ?case by simp
next
  case (Cons c cs)
  show ?case
  proof (cases "prefix sub (c # cs)")
    case True
    then obtain rest where "c # cs = sub @ rest" by (auto simp: prefix_def)
    then show ?thesis by (intro exI [of _ "[]"] exI [of _ rest]) simp
  next
    case False
    with Cons.prems have "sublist sub cs" by (simp add: sublist_Cons_right)
    then obtain pre rest where cs: "cs = pre @ sub @ rest"
      and first: "\<forall>j<length pre. \<not> prefix sub (drop j cs)"
      using Cons.IH by blast
    have "\<forall>j<length (c # pre). \<not> prefix sub (drop j (c # cs))"
    proof (intro allI impI)
      fix j assume j: "j < length (c # pre)"
      show "\<not> prefix sub (drop j (c # cs))"
      proof (cases j)
        case 0
        with False show ?thesis by simp
      next
        case (Suc i)
        with j first show ?thesis by simp
      qed
    qed
    moreover have "c # cs = (c # pre) @ sub @ rest" using cs by simp
    ultimately show ?thesis by blast
  qed
qed

section \<open>Lemmas about the model of the \<^verbatim>\<open>json\<close> module\<close>

lemma hex_val_hex_digit: "d < 16 \<Longrightarrow> hex_val (hex_digit d) = Some d"
  by (auto simp: hex_val_def hex_digit_def Let_def)

lemma hex4_escape:
  assumes "k < 256"
  shows "hex4 (CHR ''0'') (CHR ''0'') (hex_digit (k div 16)) (hex_digit (k mod 16)) = Some k"
proof -
  have "k div 16 < 16" using assms by simp
  moreover have "k mod 16 < 16" by simp
  moreover have "hex_val (CHR ''0'') = Some 0" by (simp add: hex_val_def)
  ultimately show ?thesis by (simp add: hex4_def hex_val_hex_digit)
qed

lemma char_eqI: "(of_char c :: nat) = n \<Longrightarrow> (of_char d :: nat) = n \<Longrightarrow> c = d"
  by (metis of_char_eq_iff)

text \<open>What \<open>escape_char\<close> writes for a character, \<open>scan_string\<close> reads as that character.\<close>

lemma scan_string_escape_char:
  "scan_string (escape_char c @ tail) = map_option (\<lambda>(t, r). (c # t, r)) (scan_string tail)"
proof -
  define k where "k = (of_char c :: nat)"
  have c: "c = char_of k" by (simp add: k_def)
  have k: "k < 256" by (simp add: k_def)
  consider "k = 34" | "k = 92" | "k = 10" | "k = 13" | "k = 9" | "k = 8" | "k = 12"
    | "32 \<le> k" "k \<le> 126" "k \<noteq> 34" "k \<noteq> 92"
    | "k < 32" "k \<noteq> 10" "k \<noteq> 13" "k \<noteq> 9" "k \<noteq> 8" "k \<noteq> 12"
    | "126 < k"
    by linarith
  then show ?thesis
  proof cases
    case 1
    then have "c = CHR 0x22" by (intro char_eqI [of c k]) (simp_all add: k_def)
    then show ?thesis by (simp add: escape_char_def unescape_def)
  next
    case 2
    then have "c = CHR 0x5C" by (intro char_eqI [of c k]) (simp_all add: k_def)
    then show ?thesis by (simp add: escape_char_def unescape_def)
  next
    case 3
    then have "c = CHR 0x0A" by (intro char_eqI [of c k]) (simp_all add: k_def)
    then show ?thesis by (simp add: escape_char_def unescape_def)
  next
    case 4
    then have "c = CHR 0x0D" by (intro char_eqI [of c k]) (simp_all add: k_def)
    then show ?thesis by (simp add: escape_char_def unescape_def)
  next
    case 5
    then have "c = CHR 0x09" by (intro char_eqI [of c k]) (simp_all add: k_def)
    then show ?thesis by (simp add: escape_char_def unescape_def)
  next
    case 6
    then have "c = CHR 0x08" by (intro char_eqI [of c k]) (simp_all add: k_def)
    then show ?thesis by (simp add: escape_char_def unescape_def)
  next
    case 7
    then have "c = CHR 0x0C" by (intro char_eqI [of c k]) (simp_all add: k_def)
    then show ?thesis by (simp add: escape_char_def unescape_def)
  next
    case 8
    have "c \<noteq> CHR 0x22" using 8 by (auto simp: k_def)
    moreover have "c \<noteq> CHR 0x5C" using 8 by (auto simp: k_def)
    ultimately show ?thesis using 8 by (simp add: escape_char_def Let_def k_def [symmetric])
  next
    case 9
    then show ?thesis
      using hex4_escape [OF k]
      by (simp add: escape_char_def Let_def k_def [symmetric] c [symmetric])
  next
    case 10
    then show ?thesis
      using hex4_escape [OF k] k
      by (simp add: escape_char_def Let_def k_def [symmetric] c [symmetric])
  qed
qed

lemma scan_string_escaped:
  "scan_string (concat (map escape_char s) @ CHR 0x22 # rest) = Some (s, rest)"
  by (induction s) (simp_all add: scan_string_escape_char)

lemma json_quote_Cons: "json_quote s @ rest = CHR 0x22 # concat (map escape_char s) @ CHR 0x22 # rest"
  by (simp add: json_quote_def)

lemma skip_ws_quote [simp]: "skip_ws (json_quote s @ rest) = json_quote s @ rest"
  by (simp add: json_quote_Cons skip_ws_def json_ws_def)

lemma parse_value_string:
  "parse_value (u # fuel) (json_quote s @ rest) = Some (PyStr s, rest)"
  by (simp add: json_quote_Cons scan_string_escaped)

lemma parse_elements_strings:
  "length xs + 2 \<le> length fuel \<Longrightarrow>
   parse_elements fuel acc (py_join '', '' (map json_quote (x # xs)) @ CHR '']'' # rest)
     = Some (PyList (acc @ map PyStr (x # xs)), rest)"
proof (induction xs arbitrary: x acc fuel)
  case Nil
  then obtain u u' f where fuel: "fuel = u # u' # f"
    by (cases fuel; cases "tl fuel") auto
  have "parse_value (u' # f) (json_quote x @ CHR '']'' # rest) = Some (PyStr x, CHR '']'' # rest)"
    by (rule parse_value_string)
  then show ?case
    by (simp add: fuel skip_ws_def json_ws_def del: parse_value.simps)
next
  case (Cons y ys)
  then obtain u u' f where fuel: "fuel = u # u' # f"
    by (cases fuel; cases "tl fuel") auto
  have len: "length ys + 2 \<le> length (u' # f)" using Cons.prems by (simp add: fuel)
  have next_input:
    "skip_ws (CHR '' '' # py_join '', '' (map json_quote (y # ys)) @ CHR '']'' # rest)
       = py_join '', '' (map json_quote (y # ys)) @ CHR '']'' # rest"
    by (cases ys) (simp_all add: skip_ws_def json_ws_def json_quote_def)
  have "parse_elements fuel acc
          (json_quote x @ CHR '','' # CHR '' '' # py_join '', '' (map json_quote (y # ys)) @ CHR '']'' # rest)
        = parse_elements (u' # f) (acc @ [PyStr x])
            (py_join '', '' (map json_quote (y # ys)) @ CHR '']'' # rest)"
    using parse_value_string [of u' f x "CHR '','' # CHR '' '' # py_join '', '' (map json_quote (y # ys)) @ CHR '']'' # rest"]
          next_input
    by (simp add: fuel skip_ws_def json_ws_def del: parse_value.simps)
  also have "\<dots> = Some (PyList ((acc @ [PyStr x]) @ map PyStr (y # ys)), rest)"
    using len by (rule Cons.IH)
  finally show ?case by simp
qed

lemma length_join_quoted: "length xs \<le> length (py_join sep (map json_quote xs))"
  by (induction sep xs rule: py_join.induct) (simp_all add: json_quote_def)

text \<open>
  The model of the library reads back every list of strings that it writes.
\<close>

lemma json_loads_dumps_strings:
  "json_loads (json_dumps (PyList (map PyStr xs))) = Some (PyList (map PyStr xs))"
proof (cases xs)
  case Nil
  then show ?thesis
    by (simp add: json_loads_def skip_ws_def json_ws_def eval_nat_numeral)
next
  case (Cons x xs')
  define body where "body = py_join '', '' (map json_quote (x # xs'))"
  define n where "n = 2 * length (CHR ''['' # body @ '']'') + 2"
  have dumps: "json_dumps (PyList (map PyStr xs)) = CHR ''['' # body @ '']''"
    by (simp add: Cons comp_def body_def)
  have "length (x # xs') \<le> length body" unfolding body_def by (rule length_join_quoted)
  then have "length xs' + 3 \<le> n" by (simp add: n_def)
  then obtain m where n: "n = Suc m" and m: "length xs' + 2 \<le> m"
    by (cases n) auto
  obtain t where t: "body = CHR 0x22 # t"
    unfolding body_def by (cases xs') (simp_all add: json_quote_def)
  have sk: "skip_ws (body @ '']'') = body @ '']''"
    by (simp add: t skip_ws_def json_ws_def)
  have open_bracket: "skip_ws (CHR ''['' # body @ '']'') = CHR ''['' # body @ '']''"
    by (simp add: skip_ws_def json_ws_def)
  have "parse_value (replicate n ()) (skip_ws (CHR ''['' # body @ '']''))
        = parse_elements (replicate m ()) [] (body @ '']'')"
    unfolding n open_bracket by (simp add: sk) (simp add: t)
  also have "\<dots> = Some (PyList ([] @ map PyStr (x # xs')), [])"
    unfolding body_def
    using parse_elements_strings [of xs' "replicate m ()" "[]" x "[]"] m by simp
  finally show ?thesis
    unfolding json_loads_def dumps n_def [symmetric] by (simp add: Cons skip_ws_def)
qed

section \<open>The payload handed to the JSON parser\<close>

lemma extract_fenced:
  assumes r: "response = pre @ ''```json'' @ mid @ ''```'' @ post"
      and first: "\<forall>j<length pre. \<not> prefix ''```json'' (drop j response)"
      and nxt: "\<forall>j<length mid. \<not> prefix ''```'' (drop j (mid @ ''```'' @ post))"
  shows "extract_json_str response = py_strip mid"
proof -
  have occurs: "py_in ''```json'' response"
    unfolding r py_in_iff_sublist by (rule sublist_appendI)
  have start: "py_find response ''```json'' 0 = int (length pre)"
    using first unfolding r by (rule py_find_first)
  have "py_find ((pre @ ''```json'') @ mid @ ''```'' @ post) ''```'' (int (length (pre @ ''```json'')))
        = int (length (pre @ ''```json'')) + int (length mid)"
    using nxt by (rule py_find_from)
  then have stop: "py_find response ''```'' (int (length pre) + 7) = int (length pre) + 7 + int (length mid)"
    unfolding r by (simp add: add.commute)
  have "py_slice ((pre @ ''```json'') @ mid @ (''```'' @ post))
          (int (length (pre @ ''```json''))) (int (length (pre @ ''```json'')) + int (length mid)) = mid"
    by (rule py_slice_middle)
  then have slice: "py_slice response (int (length pre) + 7) (int (length pre) + 7 + int (length mid)) = mid"
    unfolding r by (simp add: add.commute)
  show ?thesis
    unfolding extract_json_str_def using occurs start stop slice by (simp add: Let_def)
qed

lemma extract_braces:
  assumes nomark: "\<not> sublist ''```json'' response"
      and r: "response = pre @ ''{'' @ mid @ ''}'' @ post"
      and first: "CHR ''{'' \<notin> set pre"
      and last: "CHR ''}'' \<notin> set post"
  shows "extract_json_str response = ''{'' @ mid @ ''}''"
proof -
  have no: "\<not> py_in ''```json'' response" using nomark by (simp add: py_in_iff_sublist)
  have both: "py_in ''{'' response \<and> py_in ''}'' response" by (simp add: py_in_char r)
  have start: "py_find response ''{'' 0 = int (length pre)"
    using find_sub_char [OF first, of "mid @ ''}'' @ post"] by (simp add: py_find_def r)
  have "rfind_sub ''}'' ((pre @ ''{'' @ mid) @ CHR ''}'' # post) = Some (length (pre @ ''{'' @ mid))"
    using last by (rule rfind_sub_char)
  then have stop: "py_rfind response ''}'' = int (length pre) + 1 + int (length mid)"
    by (simp add: py_rfind_def r)
  have "py_slice (pre @ (''{'' @ mid @ ''}'') @ post) (int (length pre))
          (int (length pre) + int (length (''{'' @ mid @ ''}''))) = ''{'' @ mid @ ''}''"
    by (rule py_slice_middle)
  then have slice:
    "py_slice response (int (length pre)) (int (length pre) + 1 + int (length mid) + 1) = ''{'' @ mid @ ''}''"
    by (simp add: r add.commute add.left_commute)
  show ?thesis
    unfolding extract_json_str_def using no both start stop slice by (simp add: Let_def)
qed

lemma extract_braces_crossed:
  assumes nomark: "\<not> sublist ''```json'' response"
      and r: "response = a @ ''}'' @ b @ ''{'' @ c"
      and first: "CHR ''{'' \<notin> set a" "CHR ''{'' \<notin> set b"
      and last: "CHR ''}'' \<notin> set b" "CHR ''}'' \<notin> set c"
  shows "extract_json_str response = []"
proof -
  have no: "\<not> py_in ''```json'' response" using nomark by (simp add: py_in_iff_sublist)
  have both: "py_in ''{'' response \<and> py_in ''}'' response" by (simp add: py_in_char r)
  have "find_sub ''{'' ((a @ ''}'' @ b) @ CHR ''{'' # c) = Some (length (a @ ''}'' @ b))"
    by (rule find_sub_char) (use first in simp)
  then have start: "py_find response ''{'' 0 = int (length a) + 1 + int (length b)"
    by (simp add: py_find_def r)
  have "rfind_sub ''}'' (a @ CHR ''}'' # (b @ ''{'' @ c)) = Some (length a)"
    by (rule rfind_sub_char) (use last in simp)
  then have stop: "py_rfind response ''}'' = int (length a)"
    by (simp add: py_rfind_def r)
  have "py_slice response (int (length a) + 1 + int (length b)) (int (length a) + 1) = []"
    by (rule py_slice_crossed) simp_all
  then show ?thesis
    unfolding extract_json_str_def using no both start stop by (simp add: Let_def)
qed

lemma extract_whole:
  assumes "\<not> sublist ''```json'' response"
      and "CHR ''{'' \<notin> set response \<or> CHR ''}'' \<notin> set response"
  shows "extract_json_str response = response"
proof -
  have "\<not> py_in ''```json'' response" using assms(1) by (simp add: py_in_iff_sublist)
  moreover have "\<not> (py_in ''{'' response \<and> py_in ''}'' response)"
    using assms(2) by (simp add: py_in_char)
  ultimately show ?thesis unfolding extract_json_str_def by auto
qed

text \<open>
  The marker without a fence behind it: \<^verbatim>\<open>find\<close> of line 129 gives \<open>-1\<close>, and the slice of
  line 130 ends before the last character of the response. No case of C2 below speaks
  of such a response.
\<close>

lemma extract_unclosed_fence:
  assumes r: "response = pre @ ''```json'' @ rest"
      and first: "\<forall>j<length pre. \<not> prefix ''```json'' (drop j response)"
      and nofence: "\<not> sublist ''```'' rest"
  shows "extract_json_str response = py_strip (butlast rest)"
proof -
  have occurs: "py_in ''```json'' response"
    unfolding r py_in_iff_sublist by (rule sublist_appendI)
  have start: "py_find response ''```json'' 0 = int (length pre)"
    using first unfolding r by (rule py_find_first)
  have none: "find_sub ''```'' rest = None" using nofence by (simp add: find_sub_None_iff)
  have pos: "nat (int (length pre) + 7) = length pre + 7" by simp
  have tail: "drop (length pre + 7) response = rest" by (simp add: r)
  have len: "int (length response) = int (length pre) + 7 + int (length rest)" by (simp add: r)
  have stop: "py_find response ''```'' (int (length pre) + 7) = - 1"
    by (simp add: py_find_def Let_def pos tail none len)
  have "nat (int (length pre) + 7 + int (length rest) - 1 - (int (length pre) + 7)) = length rest - 1"
    by simp
  then have slice: "py_slice response (int (length pre) + 7) (- 1) = butlast rest"
    by (simp add: py_slice_def Let_def pos tail len butlast_conv_take)
  show ?thesis
    unfolding extract_json_str_def using occurs start stop slice by (simp add: Let_def)
qed

text \<open>
  C2, as the specification states it, fails on the usual fenced answer: between the
  opening fence and the closing fence stand a newline, \<^verbatim>\<open>{}\<close> and a newline, and the
  payload is \<^verbatim>\<open>{}\<close>, because line 130 strips the content.
\<close>

theorem extract_json_str_counterexample:
  "extract_json_str (''```json'' @ ([CHR 0x0A] @ ''{}'' @ [CHR 0x0A]) @ ''```'') = ''{}''
   \<and> ''{}'' \<noteq> [CHR 0x0A] @ ''{}'' @ [CHR 0x0A]"
  by code_simp

text \<open>
  C2 (amended). (1) If the marker \<^verbatim>\<open>```json\<close> occurs, first behind \<open>pre\<close>, and a
  fence \<^verbatim>\<open>```\<close> follows it, next behind \<open>mid\<close>, the payload is \<open>mid\<close> without its
  leading and trailing whitespace, whether braces occur or not. (2) If the marker does
  not occur and \<^verbatim>\<open>{\<close> and \<^verbatim>\<open>}\<close> both occur, the payload runs from the first \<^verbatim>\<open>{\<close> to
  the last \<^verbatim>\<open>}\<close>, both included, (3) and is empty when the last \<^verbatim>\<open>}\<close> stands before
  the first \<^verbatim>\<open>{\<close>. (4) If the marker does not occur and \<^verbatim>\<open>{\<close> or \<^verbatim>\<open>}\<close> does not occur,
  the payload is the whole response. Nothing is said of a response in which the marker
  occurs and no fence follows it.
\<close>

theorem extract_json_str_cases:
  "(response = pre @ ''```json'' @ mid @ ''```'' @ post
      \<and> (\<forall>j<length pre. \<not> prefix ''```json'' (drop j response))
      \<and> (\<forall>j<length mid. \<not> prefix ''```'' (drop j (mid @ ''```'' @ post)))
      \<longrightarrow> extract_json_str response = py_strip mid)
   \<and> (\<not> sublist ''```json'' response
      \<and> response = pre @ ''{'' @ mid @ ''}'' @ post
      \<and> CHR ''{'' \<notin> set pre \<and> CHR ''}'' \<notin> set post
      \<longrightarrow> extract_json_str response = ''{'' @ mid @ ''}'')
   \<and> (\<not> sublist ''```json'' response
      \<and> response = pre @ ''}'' @ mid @ ''{'' @ post
      \<and> CHR ''{'' \<notin> set pre \<and> CHR ''{'' \<notin> set mid
      \<and> CHR ''}'' \<notin> set mid \<and> CHR ''}'' \<notin> set post
      \<longrightarrow> extract_json_str response = [])
   \<and> (\<not> sublist ''```json'' response
      \<and> (CHR ''{'' \<notin> set response \<or> CHR ''}'' \<notin> set response)
      \<longrightarrow> extract_json_str response = response)"
  using extract_fenced [of response pre mid post]
        extract_braces [of response pre mid post]
        extract_braces_crossed [of response pre mid post]
        extract_whole [of response]
  by blast

text \<open>The four cases at concrete responses.\<close>

theorem extract_json_str_cases_witness:
  "extract_json_str (''Sure: '' @ ''```json'' @ ([CHR 0x0A] @ ''{}'' @ [CHR 0x0A]) @ ''```'' @ '' Bye'') = ''{}''
   \<and> extract_json_str (''Sure: '' @ ''{'' @ ''a} {b'' @ ''}'' @ '' Bye'') = ''{a} {b}''
   \<and> extract_json_str (''a'' @ ''}'' @ ''b'' @ ''{'' @ ''c'') = []
   \<and> extract_json_str ''Sorry {'' = ''Sorry {''"
proof -
  have 1: "extract_json_str (''Sure: '' @ ''```json'' @ ([CHR 0x0A] @ ''{}'' @ [CHR 0x0A]) @ ''```'' @ '' Bye'')
           = py_strip ([CHR 0x0A] @ ''{}'' @ [CHR 0x0A])"
    using extract_json_str_cases
      [of "''Sure: '' @ ''```json'' @ ([CHR 0x0A] @ ''{}'' @ [CHR 0x0A]) @ ''```'' @ '' Bye''"
          "''Sure: ''" "[CHR 0x0A] @ ''{}'' @ [CHR 0x0A]" "'' Bye''"]
    by (simp add: less_Suc_eq eval_nat_numeral)
  have 2: "extract_json_str (''Sure: '' @ ''{'' @ ''a} {b'' @ ''}'' @ '' Bye'') = ''{'' @ ''a} {b'' @ ''}''"
    using extract_json_str_cases
      [of "''Sure: '' @ ''{'' @ ''a} {b'' @ ''}'' @ '' Bye''" "''Sure: ''" "''a} {b''" "'' Bye''"]
    by (simp add: sublist_code)
  have 3: "extract_json_str (''a'' @ ''}'' @ ''b'' @ ''{'' @ ''c'') = []"
    using extract_json_str_cases [of "''a'' @ ''}'' @ ''b'' @ ''{'' @ ''c''" "''a''" "''b''" "''c''"]
    by (simp add: sublist_code)
  have 4: "extract_json_str ''Sorry {'' = ''Sorry {''"
    using extract_json_str_cases [of "''Sorry {''"]
    by (simp add: sublist_code)
  have "py_strip ([CHR 0x0A] @ ''{}'' @ [CHR 0x0A]) = ''{}''"
    by (simp add: py_strip_def py_isspace_def)
  with 1 2 3 4 show ?thesis by simp
qed

section \<open>The fallback of \<^verbatim>\<open>process_requirements\<close>\<close>

text \<open>
  C1. For every brief and every response string whose payload \<^verbatim>\<open>json.loads\<close> does not
  parse, \<^verbatim>\<open>process_requirements\<close> returns (it has no path that raises: the bare
  \<^verbatim>\<open>except:\<close> takes every exception of the \<^verbatim>\<open>try\<close> body) the subject \<^verbatim>\<open>Regarding: \<close>
  followed by the first 50 characters of the purpose and \<^verbatim>\<open>...\<close>, and as context the
  JSON text of the object that holds the unchanged purpose and that subject.
\<close>

theorem process_requirements_fallback:
  assumes "loads (extract_json_str response) = None"
  shows "process_requirements loads dumps brief (PyStr response) =
           PyDict
             [(''context'',
               PyStr (dumps (PyDict
                 [(''purpose'', PyStr (EmailBrief.purpose brief)),
                  (''subject_suggestion'',
                   PyStr (''Regarding: '' @ take 50 (EmailBrief.purpose brief) @ ''...''))]))),
              (''subject'', PyStr (''Regarding: '' @ take 50 (EmailBrief.purpose brief) @ ''...''))]"
  using assms by (simp add: process_requirements_def try_parse_context_def Let_def)

text \<open>An answer without JSON, and a purpose of 63 characters.\<close>

theorem process_requirements_fallback_witness:
  "json_loads (extract_json_str ''Sorry, I cannot help with that.'') = None
   \<and> process_requirements json_loads json_dumps example_brief (PyStr ''Sorry, I cannot help with that.'')
     = PyDict
         [(''context'',
           PyStr (json_dumps (PyDict
             [(''purpose'', PyStr ''Schedule a meeting with the whole team about the quarterly plan''),
              (''subject_suggestion'',
               PyStr ''Regarding: Schedule a meeting with the whole team about the q...'')]))),
          (''subject'', PyStr ''Regarding: Schedule a meeting with the whole team about the q...'')]"
proof -
  have h: "json_loads (extract_json_str ''Sorry, I cannot help with that.'') = None"
    by code_simp
  show ?thesis
    using h process_requirements_fallback [where loads = json_loads
        and response = "''Sorry, I cannot help with that.''" and dumps = json_dumps
        and brief = example_brief]
    by (simp add: example_brief_def del: json_dumps.simps)
qed

section \<open>Failures of \<^verbatim>\<open>call_gemini_api\<close>\<close>

text \<open>
  C7, as the specification states it, fails: when the transport fails,
  \<^verbatim>\<open>call_gemini_api\<close> returns a string, the very value it returns when the provider
  generates that text.
\<close>

theorem call_gemini_api_counterexample:
  "call_gemini_api (\<lambda>e. ''e'') (\<lambda>p. RequestException ''503 Server Error'') ''Hello''
   = call_gemini_api (\<lambda>e. ''e'')
       (\<lambda>p. JsonBody (PyDict [(''candidates'',
          PyList [PyDict [(''content'',
            PyDict [(''parts'', PyList [PyDict [(''text'', PyStr ''API Error: 503 Server Error'')]])])]])]))
       ''Hello''"
  by (simp add: call_gemini_api_def candidate_text_def bind_exn_def)

text \<open>
  C7 (amended). \<^verbatim>\<open>call_gemini_api\<close> raises nothing on a failure, it returns a string:
  \<^verbatim>\<open>API Error: \<close> and the message when the transport fails or the provider rejects
  the request, \<^verbatim>\<open>Error: \<close> and the message for any other exception, also one raised
  while the decoded body is read, and \<^verbatim>\<open>Error: Could not generate response\<close> when the
  body holds no candidate text.
\<close>

theorem call_gemini_api_failure_is_string:
  "(http prompt = RequestException msg \<longrightarrow>
      call_gemini_api exn_str http prompt = PyStr (''API Error: '' @ msg))
   \<and> (http prompt = OtherException msg \<longrightarrow>
      call_gemini_api exn_str http prompt = PyStr (''Error: '' @ msg))
   \<and> (http prompt = JsonBody result \<and> candidate_text result = Inl e \<longrightarrow>
      call_gemini_api exn_str http prompt = PyStr (''Error: '' @ exn_str e))
   \<and> (http prompt = JsonBody result \<and> candidate_text result = Inr None \<longrightarrow>
      call_gemini_api exn_str http prompt = PyStr ''Error: Could not generate response'')"
  by (simp add: call_gemini_api_def)

theorem call_gemini_api_failure_is_string_witness:
  "call_gemini_api (\<lambda>e. ''e'') (\<lambda>p. RequestException ''503 Server Error'') ''Hello''
     = PyStr ''API Error: 503 Server Error''
   \<and> call_gemini_api (\<lambda>e. ''e'') (\<lambda>p. OtherException ''boom'') ''Hello'' = PyStr ''Error: boom''
   \<and> call_gemini_api (\<lambda>e. ''e'') (\<lambda>p. JsonBody (PyDict [(''candidates'', PyInt 3)])) ''Hello''
     = PyStr ''Error: e''
   \<and> call_gemini_api (\<lambda>e. ''e'') (\<lambda>p. JsonBody (PyDict [(''error'', PyStr ''quota'')])) ''Hello''
     = PyStr ''Error: Could not generate response''"
proof -
  have 3: "candidate_text (PyDict [(''candidates'', PyInt 3)]) = Inl (TypeError OpLen (PyInt 3))"
    by (simp add: candidate_text_def bind_exn_def)
  have 4: "candidate_text (PyDict [(''error'', PyStr ''quota'')]) = Inr None"
    by (simp add: candidate_text_def bind_exn_def)
  show ?thesis
    using call_gemini_api_failure_is_string
            [of "\<lambda>p. RequestException ''503 Server Error''" "''Hello''" "''503 Server Error''" "\<lambda>e. ''e''"]
          call_gemini_api_failure_is_string
            [of "\<lambda>p. OtherException ''boom''" "''Hello''" "''boom''" "\<lambda>e. ''e''"]
          call_gemini_api_failure_is_string
            [of "\<lambda>p. JsonBody (PyDict [(''candidates'', PyInt 3)])" "''Hello''" _ "\<lambda>e. ''e''"
                "PyDict [(''candidates'', PyInt 3)]" "TypeError OpLen (PyInt 3)"]
          call_gemini_api_failure_is_string
            [of "\<lambda>p. JsonBody (PyDict [(''error'', PyStr ''quota'')])" "''Hello''" _ "\<lambda>e. ''e''"
                "PyDict [(''error'', PyStr ''quota'')]"]
          3 4
    by simp
qed

section \<open>Classification of delivery failures\<close>

text \<open>
  C8. \<^verbatim>\<open>send_email\<close> returns a dict with the keys \<^verbatim>\<open>success\<close> and \<^verbatim>\<open>message\<close>. Without
  credentials it returns \<^verbatim>\<open>success = False\<close> with the configuration message and attempts
  no delivery, whatever the transport would do. With credentials it attempts one
  delivery to the recipients: an authentication failure and a refusal of the recipients
  give \<^verbatim>\<open>success = False\<close>, each with its own message, any other failure gives
  \<^verbatim>\<open>success = False\<close> with the message of the exception, and a completed delivery gives
  \<^verbatim>\<open>success = True\<close> with a message. The five messages differ from each other.
\<close>

theorem send_email_classifies:
  "(\<not> truthy (py_or sender_email (env ''EMAIL_USERNAME''))
      \<or> \<not> truthy (py_or sender_password (env ''EMAIL_PASSWORD''))
     \<longrightarrow> send_email env cfg smtp subj body rcpts sender_email sender_password is_html attempts
         = (send_result False
              ''Email credentials not provided. Check EMAIL_USERNAME and EMAIL_PASSWORD in .env file'',
            attempts))
   \<and> (truthy (py_or sender_email (env ''EMAIL_USERNAME''))
      \<and> truthy (py_or sender_password (env ''EMAIL_PASSWORD''))
     \<longrightarrow> (\<exists>d. snd (send_email env cfg smtp subj body rcpts sender_email sender_password is_html attempts)
                 = attempts @ [d]
            \<and> rcpt_to d = rcpts
            \<and> (smtp d = SMTPAuthenticationError \<longrightarrow>
                 fst (send_email env cfg smtp subj body rcpts sender_email sender_password is_html attempts)
                 = send_result False
                     ''Email authentication failed. Check your email and password/app password.'')
            \<and> (smtp d = SMTPRecipientsRefused \<longrightarrow>
                 fst (send_email env cfg smtp subj body rcpts sender_email sender_password is_html attempts)
                 = send_result False
                     ''One or more recipients were refused. Check email addresses.'')
            \<and> (smtp d = OtherError msg \<longrightarrow>
                 fst (send_email env cfg smtp subj body rcpts sender_email sender_password is_html attempts)
                 = send_result False (''Failed to send email: '' @ msg))
            \<and> (smtp d = Delivered \<longrightarrow>
                 fst (send_email env cfg smtp subj body rcpts sender_email sender_password is_html attempts)
                 = send_result True
                     (''Email sent successfully to '' @ str_nat (length rcpts) @ '' recipient(s)''))))
   \<and> distinct
        [''Email credentials not provided. Check EMAIL_USERNAME and EMAIL_PASSWORD in .env file'',
         ''Email authentication failed. Check your email and password/app password.'',
         ''One or more recipients were refused. Check email addresses.'',
         ''Failed to send email: '' @ msg,
         ''Email sent successfully to '' @ str_nat (length rcpts) @ '' recipient(s)'']"
proof (intro conjI impI)
  assume "\<not> truthy (py_or sender_email (env ''EMAIL_USERNAME''))
      \<or> \<not> truthy (py_or sender_password (env ''EMAIL_PASSWORD''))"
  then show "send_email env cfg smtp subj body rcpts sender_email sender_password is_html attempts
         = (send_result False
              ''Email credentials not provided. Check EMAIL_USERNAME and EMAIL_PASSWORD in .env file'',
            attempts)"
    by (auto simp: send_email_def Let_def)
next
  assume ok: "truthy (py_or sender_email (env ''EMAIL_USERNAME''))
      \<and> truthy (py_or sender_password (env ''EMAIL_PASSWORD''))"
  let ?d = "\<lparr> config = cfg,
              login_user = the (py_or sender_email (env ''EMAIL_USERNAME'')),
              login_password = the (py_or sender_password (env ''EMAIL_PASSWORD'')),
              mail_from = the (py_or sender_email (env ''EMAIL_USERNAME'')),
              rcpt_to = rcpts,
              header_subject = subj,
              header_from = the (py_or sender_email (env ''EMAIL_USERNAME'')),
              header_to = py_join '', '' rcpts,
              body_text = body,
              body_subtype = (if is_html then ''html'' else ''plain'') \<rparr>"
  let ?result = "fst (send_email env cfg smtp subj body rcpts sender_email sender_password is_html attempts)"
  have "snd (send_email env cfg smtp subj body rcpts sender_email sender_password is_html attempts)
          = attempts @ [?d]"
    using ok by (simp add: send_email_def Let_def)
  moreover have "rcpt_to ?d = rcpts" by simp
  moreover have "smtp ?d = SMTPAuthenticationError \<longrightarrow>
                 ?result = send_result False
                     ''Email authentication failed. Check your email and password/app password.''"
    using ok by (simp add: send_email_def Let_def)
  moreover have "smtp ?d = SMTPRecipientsRefused \<longrightarrow>
                 ?result = send_result False
                     ''One or more recipients were refused. Check email addresses.''"
    using ok by (simp add: send_email_def Let_def)
  moreover have "smtp ?d = OtherError msg \<longrightarrow>
                 ?result = send_result False (''Failed to send email: '' @ msg)"
    using ok by (simp add: send_email_def Let_def)
  moreover have "smtp ?d = Delivered \<longrightarrow>
                 ?result = send_result True
                     (''Email sent successfully to '' @ str_nat (length rcpts) @ '' recipient(s)'')"
    using ok by (simp add: send_email_def Let_def)
  ultimately show "\<exists>d. snd (send_email env cfg smtp subj body rcpts sender_email sender_password is_html attempts)
                 = attempts @ [d]
            \<and> rcpt_to d = rcpts
            \<and> (smtp d = SMTPAuthenticationError \<longrightarrow>
                 ?result = send_result False
                     ''Email authentication failed. Check your email and password/app password.'')
            \<and> (smtp d = SMTPRecipientsRefused \<longrightarrow>
                 ?result = send_result False
                     ''One or more recipients were refused. Check email addresses.'')
            \<and> (smtp d = OtherError msg \<longrightarrow>
                 ?result = send_result False (''Failed to send email: '' @ msg))
            \<and> (smtp d = Delivered \<longrightarrow>
                 ?result = send_result True
                     (''Email sent successfully to '' @ str_nat (length rcpts) @ '' recipient(s)''))"
    by blast
next
  show "distinct
        [''Email credentials not provided. Check EMAIL_USERNAME and EMAIL_PASSWORD in .env file'',
         ''Email authentication failed. Check your email and password/app password.'',
         ''One or more recipients were refused. Check email addresses.'',
         ''Failed to send email: '' @ msg,
         ''Email sent successfully to '' @ str_nat (length rcpts) @ '' recipient(s)'']"
    by simp
qed

text \<open>
  No credentials at all; then credentials from the environment and a transport that
  rejects the login, refuses the recipients, times out, or delivers.
\<close>

theorem send_email_classifies_witness:
  "send_email (\<lambda>v. None) example_config (\<lambda>d. Delivered) ''Hi'' ''Body'' [''a@x.com'', ''b@y.org'']
       None None False []
     = (send_result False
          ''Email credentials not provided. Check EMAIL_USERNAME and EMAIL_PASSWORD in .env file'', [])
   \<and> fst (send_email (\<lambda>v. Some ''me@x.com'') example_config (\<lambda>d. SMTPAuthenticationError)
          ''Hi'' ''Body'' [''a@x.com'', ''b@y.org''] None None False [])
     = send_result False ''Email authentication failed. Check your email and password/app password.''
   \<and> fst (send_email (\<lambda>v. Some ''me@x.com'') example_config (\<lambda>d. SMTPRecipientsRefused)
          ''Hi'' ''Body'' [''a@x.com'', ''b@y.org''] None None False [])
     = send_result False ''One or more recipients were refused. Check email addresses.''
   \<and> fst (send_email (\<lambda>v. Some ''me@x.com'') example_config (\<lambda>d. OtherError ''timed out'')
          ''Hi'' ''Body'' [''a@x.com'', ''b@y.org''] None None False [])
     = send_result False ''Failed to send email: timed out''
   \<and> fst (send_email (\<lambda>v. Some ''me@x.com'') example_config (\<lambda>d. Delivered)
          ''Hi'' ''Body'' [''a@x.com'', ''b@y.org''] None None False [])
     = send_result True ''Email sent successfully to 2 recipient(s)''"
proof -
  have n: "str_nat (length [''a@x.com'', ''b@y.org'']) = ''2''"
    by code_simp
  have t: "truthy (py_or None (Some ''me@x.com''))" "\<not> truthy (py_or None None)"
    by (simp_all add: truthy_def py_or_def)
  show ?thesis
    using send_email_classifies [of None "\<lambda>v. None" None example_config "\<lambda>d. Delivered"
            "''Hi''" "''Body''" "[''a@x.com'', ''b@y.org'']" False "[]"]
          send_email_classifies [of None "\<lambda>v. Some ''me@x.com''" None example_config
            "\<lambda>d. SMTPAuthenticationError" "''Hi''" "''Body''" "[''a@x.com'', ''b@y.org'']" False "[]"]
          send_email_classifies [of None "\<lambda>v. Some ''me@x.com''" None example_config
            "\<lambda>d. SMTPRecipientsRefused" "''Hi''" "''Body''" "[''a@x.com'', ''b@y.org'']" False "[]"]
          send_email_classifies [of None "\<lambda>v. Some ''me@x.com''" None example_config
            "\<lambda>d. OtherError ''timed out''" "''Hi''" "''Body''" "[''a@x.com'', ''b@y.org'']" False "[]"
            "''timed out''"]
          send_email_classifies [of None "\<lambda>v. Some ''me@x.com''" None example_config
            "\<lambda>d. Delivered" "''Hi''" "''Body''" "[''a@x.com'', ''b@y.org'']" False "[]"]
          n t
    by auto
qed

section \<open>The store\<close>

subsection \<open>\<^verbatim>\<open>update_email_status\<close>\<close>

text \<open>
  C10. \<^verbatim>\<open>update_email_status\<close> keeps the number and the order of the records. In every
  record the columns \<^verbatim>\<open>id\<close>, \<^verbatim>\<open>thread_id\<close>, \<^verbatim>\<open>recipients\<close>, \<^verbatim>\<open>subject\<close>, \<^verbatim>\<open>purpose\<close>, \<^verbatim>\<open>tone\<close>,
  \<^verbatim>\<open>draft\<close> and \<^verbatim>\<open>created_at\<close> keep their values (so only \<^verbatim>\<open>status\<close>, \<^verbatim>\<open>final_email\<close> and
  \<^verbatim>\<open>updated_at\<close> can change), and a record with another \<^verbatim>\<open>thread_id\<close> is unchanged in
  every column.
\<close>

theorem update_email_status_frame:
  "i < length rows \<Longrightarrow>
     (let r = rows ! i; r' = update_email_status dumps now tid st fe rows ! i
      in length (update_email_status dumps now tid st fe rows) = length rows
       \<and> row_id r' = row_id r \<and> thread_id r' = thread_id r
       \<and> email_history.recipients r' = email_history.recipients r
       \<and> subject r' = subject r
       \<and> email_history.purpose r' = email_history.purpose r
       \<and> email_history.tone r' = email_history.tone r
       \<and> draft r' = draft r \<and> created_at r' = created_at r
       \<and> (thread_id r \<noteq> tid \<longrightarrow> r' = r))"
  by (simp add: update_email_status_def Let_def)

text \<open>An update of thread \<^verbatim>\<open>t2\<close>, seen at the record of thread \<^verbatim>\<open>t1\<close>.\<close>

theorem update_email_status_frame_witness:
  "(let rows = [example_sent_row, example_sent_row\<lparr> row_id := ''t2'', thread_id := ''t2'' \<rparr>];
        r = rows ! 0;
        r' = update_email_status json_dumps 9 ''t2'' ''draft'' None rows ! 0
    in (0::nat) < length rows
       \<and> length (update_email_status json_dumps 9 ''t2'' ''draft'' None rows) = length rows
       \<and> row_id r' = row_id r \<and> thread_id r' = thread_id r
       \<and> email_history.recipients r' = email_history.recipients r
       \<and> subject r' = subject r
       \<and> email_history.purpose r' = email_history.purpose r
       \<and> email_history.tone r' = email_history.tone r
       \<and> draft r' = draft r \<and> created_at r' = created_at r
       \<and> thread_id r \<noteq> ''t2'' \<and> r' = r)"
  using update_email_status_frame
    [of 0 "[example_sent_row, example_sent_row\<lparr> row_id := ''t2'', thread_id := ''t2'' \<rparr>]"
        json_dumps 9 "''t2''" "''draft''" None]
  by (simp add: Let_def example_sent_row_def)

lemma final_email_json_None: "final_email_json dumps fe = None \<longleftrightarrow> fe = None \<or> fe = Some []"
  by (simp add: final_email_json_def split: option.splits)

text \<open>
  C3, as the specification states it, fails. The stored thread has status \<^verbatim>\<open>sent\<close>, from
  which section 4.2 permits neither \<^verbatim>\<open>send\<close> nor \<^verbatim>\<open>retrySend\<close>; recording a delivery once
  more succeeds and rewrites \<^verbatim>\<open>final_email\<close> and \<^verbatim>\<open>updated_at\<close> of the record.
\<close>

theorem invalid_transition_counterexample:
  "status example_sent_row = ''sent''
   \<and> \<not> spec_permits (status example_sent_row) Send
   \<and> \<not> spec_permits (status example_sent_row) RetrySend
   \<and> update_email_status json_dumps 9 ''t1'' ''sent'' (Some [(''subject'', PyStr ''Again'')])
        [example_sent_row]
      = [example_sent_row
           \<lparr> final_email := Some (json_dumps (PyDict [(''subject'', PyStr ''Again'')])),
             updated_at := 9 \<rparr>]
   \<and> update_email_status json_dumps 9 ''t1'' ''sent'' (Some [(''subject'', PyStr ''Again'')])
        [example_sent_row]
      \<noteq> [example_sent_row]"
  by (simp add: spec_permits_def update_email_status_def final_email_json_def example_sent_row_def
           del: json_dumps.simps)

text \<open>
  C3 (amended). \<^verbatim>\<open>update_email_status\<close> checks no state and has no error result: whatever
  the status of a record with the given \<^verbatim>\<open>thread_id\<close> is, the call sets its \<^verbatim>\<open>status\<close>,
  \<^verbatim>\<open>final_email\<close> and \<^verbatim>\<open>updated_at\<close> to the values of the call. The table is left unchanged
  when no record has the \<^verbatim>\<open>thread_id\<close>.
\<close>

theorem update_email_status_unconditional:
  "(i < length rows \<and> thread_id (rows ! i) = tid \<longrightarrow>
      status (update_email_status dumps now tid st fe rows ! i) = st
      \<and> final_email (update_email_status dumps now tid st fe rows ! i) = final_email_json dumps fe
      \<and> updated_at (update_email_status dumps now tid st fe rows ! i) = now)
   \<and> (tid \<notin> thread_id ` set rows \<longrightarrow> update_email_status dumps now tid st fe rows = rows)"
proof -
  have "tid \<notin> thread_id ` set rows \<Longrightarrow> update_email_status dumps now tid st fe rows = rows"
    unfolding update_email_status_def by (induction rows) auto
  then show ?thesis by (simp add: update_email_status_def)
qed

text \<open>A sent thread is put back to \<^verbatim>\<open>draft\<close>; an update of an unknown thread changes nothing.\<close>

theorem update_email_status_unconditional_witness:
  "status (update_email_status json_dumps 9 ''t1'' ''draft'' None [example_sent_row] ! 0) = ''draft''
   \<and> final_email (update_email_status json_dumps 9 ''t1'' ''draft'' None [example_sent_row] ! 0) = None
   \<and> updated_at (update_email_status json_dumps 9 ''t1'' ''draft'' None [example_sent_row] ! 0) = 9
   \<and> update_email_status json_dumps 9 ''t2'' ''draft'' None [example_sent_row] = [example_sent_row]"
  using update_email_status_unconditional
          [of 0 "[example_sent_row]" "''t1''" json_dumps 9 "''draft''" None]
        update_email_status_unconditional
          [of 0 "[example_sent_row]" "''t2''" json_dumps 9 "''draft''" None]
  by (simp add: final_email_json_def example_sent_row_def)

subsection \<open>\<^verbatim>\<open>final_email\<close> and \<^verbatim>\<open>status\<close>\<close>

text \<open>
  C4, as the specification states it, fails: after a thread is saved, the call
  \<^verbatim>\<open>update_email_status(thread_id, "sent")\<close>, whose \<^verbatim>\<open>final_email\<close> defaults to \<^verbatim>\<open>None\<close>,
  leaves a record with status \<^verbatim>\<open>sent\<close> and \<^verbatim>\<open>final_email\<close> \<^verbatim>\<open>NULL\<close>.
\<close>

theorem final_email_counterexample:
  "update_email_status json_dumps 3 ''t1'' ''sent'' None
     (save_email json_dumps 1 2 ''t1'' example_brief ''Meeting'' ''Dear all'' ''draft'' [])
   = [\<lparr> row_id = ''t1'', thread_id = ''t1'',
        recipients = json_dumps (PyList (map PyStr (EmailBrief.recipients example_brief))),
        subject = ''Meeting'',
        purpose = EmailBrief.purpose example_brief, tone = EmailBrief.tone example_brief,
        draft = ''Dear all'',
        final_email = None, status = ''sent'', created_at = 1, updated_at = 3 \<rparr>]"
  by (simp add: update_email_status_def save_email_def insert_or_replace_def final_email_json_def
           del: json_dumps.simps)

lemma reachable_agreeing_final_email:
  "reachable_agreeing dumps rows \<Longrightarrow> r \<in> set rows \<Longrightarrow>
   (final_email r \<noteq> None) = delivery_status (status r)"
proof (induction arbitrary: r rule: reachable_agreeing.induct)
  case agree_empty
  then show ?case by simp
next
  case (agree_save rows st now1 now2 tid brief subj body)
  then show ?case
    by (auto simp: save_email_def insert_or_replace_def)
next
  case (agree_update rows st fe now tid)
  from agree_update.prems obtain r0 where r0: "r0 \<in> set rows"
    and r: "r = (if thread_id r0 = tid
                 then r0\<lparr> status := st, final_email := final_email_json dumps fe, updated_at := now \<rparr>
                 else r0)"
    by (auto simp: update_email_status_def)
  show ?case
  proof (cases "thread_id r0 = tid")
    case True
    with r agree_update.hyps(2) show ?thesis
      by (simp add: final_email_json_None)
  next
    case False
    with r r0 agree_update.IH show ?thesis by simp
  qed
qed

text \<open>
  C4 (amended). In every table reached by calls whose arguments agree (\<^verbatim>\<open>save_email\<close>
  with a status other than \<^verbatim>\<open>sent\<close> and \<^verbatim>\<open>send_failed\<close>; \<^verbatim>\<open>update_email_status\<close> with a
  non-empty \<^verbatim>\<open>final_email\<close> exactly when its status is \<^verbatim>\<open>sent\<close> or \<^verbatim>\<open>send_failed\<close>), the
  \<^verbatim>\<open>final_email\<close> of a record is not \<^verbatim>\<open>NULL\<close> if and only if its status is \<^verbatim>\<open>sent\<close> or
  \<^verbatim>\<open>send_failed\<close>. The two operations do not enforce the agreement themselves.
\<close>

theorem final_email_iff_delivery_status:
  assumes "reachable_agreeing dumps rows" and "r \<in> set rows"
  shows "(final_email r \<noteq> None) = (status r = ''sent'' \<or> status r = ''send_failed'')"
  using reachable_agreeing_final_email [OF assms] by (simp add: delivery_status_def)

text \<open>A thread is saved as a draft, and then recorded as sent with the email sent.\<close>

theorem final_email_iff_delivery_status_witness:
  "reachable_agreeing json_dumps
     (update_email_status json_dumps 3 ''t1'' ''sent'' (Some [(''subject'', PyStr ''Meeting'')])
        (save_email json_dumps 1 2 ''t1'' example_brief ''Meeting'' ''Dear all'' ''draft'' []))
   \<and> hd (update_email_status json_dumps 3 ''t1'' ''sent'' (Some [(''subject'', PyStr ''Meeting'')])
        (save_email json_dumps 1 2 ''t1'' example_brief ''Meeting'' ''Dear all'' ''draft'' []))
     \<in> set (update_email_status json_dumps 3 ''t1'' ''sent'' (Some [(''subject'', PyStr ''Meeting'')])
        (save_email json_dumps 1 2 ''t1'' example_brief ''Meeting'' ''Dear all'' ''draft'' []))
   \<and> final_email
       (hd (update_email_status json_dumps 3 ''t1'' ''sent'' (Some [(''subject'', PyStr ''Meeting'')])
          (save_email json_dumps 1 2 ''t1'' example_brief ''Meeting'' ''Dear all'' ''draft'' []))) \<noteq> None
   \<and> status
       (hd (update_email_status json_dumps 3 ''t1'' ''sent'' (Some [(''subject'', PyStr ''Meeting'')])
          (save_email json_dumps 1 2 ''t1'' example_brief ''Meeting'' ''Dear all'' ''draft'' []))) = ''sent''"
proof -
  let ?rows = "update_email_status json_dumps 3 ''t1'' ''sent'' (Some [(''subject'', PyStr ''Meeting'')])
        (save_email json_dumps 1 2 ''t1'' example_brief ''Meeting'' ''Dear all'' ''draft'' [])"
  have "reachable_agreeing json_dumps
          (save_email json_dumps 1 2 ''t1'' example_brief ''Meeting'' ''Dear all'' ''draft'' [])"
    by (rule agree_save) (simp_all add: agree_empty delivery_status_def)
  then have reach: "reachable_agreeing json_dumps ?rows"
    by (rule agree_update) (simp add: delivery_status_def)
  have mem: "hd ?rows \<in> set ?rows"
    by (simp add: update_email_status_def save_email_def insert_or_replace_def)
  have st: "status (hd ?rows) = ''sent''"
    by (simp add: update_email_status_def save_email_def insert_or_replace_def)
  from final_email_iff_delivery_status [OF reach mem] st have "final_email (hd ?rows) \<noteq> None"
    by simp
  with reach mem st show ?thesis by simp
qed

subsection \<open>Saving and reading back\<close>

lemma reachable_id_is_thread_id:
  "reachable dumps rows \<Longrightarrow> r \<in> set rows \<Longrightarrow> row_id r = thread_id r"
proof (induction arbitrary: r rule: reachable.induct)
  case reach_empty
  then show ?case by simp
next
  case (reach_save rows now1 now2 tid brief subj body st)
  then show ?case
    by (auto simp: save_email_def insert_or_replace_def)
next
  case (reach_update rows now tid st fe)
  then show ?case
    by (auto simp: update_email_status_def split: if_splits)
qed

lemma find_append_last:
  "\<forall>y \<in> set xs. \<not> P y \<Longrightarrow> P x \<Longrightarrow> find P (xs @ [x]) = Some x"
  by (induction xs) auto

text \<open>
  C5. In every state the table can reach, \<^verbatim>\<open>save_email\<close> followed by \<^verbatim>\<open>get_thread_by_id\<close>
  with the same thread id gives a record whose \<^verbatim>\<open>purpose\<close> and \<^verbatim>\<open>tone\<close> are those of the
  brief, and whose \<^verbatim>\<open>recipients\<close> column, read with \<^verbatim>\<open>json.loads\<close>, is the list of the
  brief's recipients, in order. Of the library the theorem uses that \<^verbatim>\<open>json.loads\<close>
  reads back what \<^verbatim>\<open>json.dumps\<close> wrote for this list.
\<close>

theorem save_then_get_thread:
  assumes "reachable dumps rows"
      and "loads (dumps (PyList (map PyStr (EmailBrief.recipients brief))))
             = Some (PyList (map PyStr (EmailBrief.recipients brief)))"
  shows "\<exists>row. get_thread_by_id tid (save_email dumps now1 now2 tid brief subj body st rows) = Some row
           \<and> email_history.purpose row = EmailBrief.purpose brief
           \<and> email_history.tone row = EmailBrief.tone brief
           \<and> loads (email_history.recipients row)
               = Some (PyList (map PyStr (EmailBrief.recipients brief)))"
proof -
  let ?new = "\<lparr> row_id = tid, thread_id = tid,
         recipients = dumps (PyList (map PyStr (EmailBrief.recipients brief))),
         subject = subj, purpose = EmailBrief.purpose brief, tone = EmailBrief.tone brief,
         draft = body, final_email = None, status = st,
         created_at = now1, updated_at = now2 \<rparr>"
  have "\<forall>y \<in> set (filter (\<lambda>r. row_id r \<noteq> tid) rows). \<not> thread_id y = tid"
    using reachable_id_is_thread_id [OF assms(1)] by auto
  then have "get_thread_by_id tid (save_email dumps now1 now2 tid brief subj body st rows) = Some ?new"
    unfolding get_thread_by_id_def save_email_def insert_or_replace_def
    by (simp add: find_append_last)
  with assms(2) show ?thesis by simp
qed

text \<open>A second thread is saved into a table that holds one thread, and read back.\<close>

theorem save_then_get_thread_witness:
  "reachable json_dumps (save_email json_dumps 1 2 ''t0'' example_brief ''S0'' ''D0'' ''draft'' [])
   \<and> json_loads (json_dumps (PyList (map PyStr (EmailBrief.recipients example_brief))))
       = Some (PyList (map PyStr (EmailBrief.recipients example_brief)))
   \<and> (\<exists>row. get_thread_by_id ''t1''
               (save_email json_dumps 3 4 ''t1'' example_brief ''Meeting'' ''Dear all'' ''draft''
                  (save_email json_dumps 1 2 ''t0'' example_brief ''S0'' ''D0'' ''draft'' [])) = Some row
            \<and> email_history.purpose row = EmailBrief.purpose example_brief
            \<and> email_history.tone row = EmailBrief.tone example_brief
            \<and> json_loads (email_history.recipients row)
                = Some (PyList (map PyStr (EmailBrief.recipients example_brief))))"
proof -
  have r: "reachable json_dumps (save_email json_dumps 1 2 ''t0'' example_brief ''S0'' ''D0'' ''draft'' [])"
    by (rule reach_save) (rule reach_empty)
  have l: "json_loads (json_dumps (PyList (map PyStr (EmailBrief.recipients example_brief))))
       = Some (PyList (map PyStr (EmailBrief.recipients example_brief)))"
    by (rule json_loads_dumps_strings)
  show ?thesis
    using r l save_then_get_thread [where dumps = json_dumps and loads = json_loads
        and brief = example_brief and tid = "''t1''" and ?now1.0 = 3 and ?now2.0 = 4
        and subj = "''Meeting''" and body = "''Dear all''" and st = "''draft''"
        and rows = "save_email json_dumps 1 2 ''t0'' example_brief ''S0'' ''D0'' ''draft'' []"]
    by blast
qed

subsection \<open>Revisions\<close>

text \<open>
  C6, as the specification states it, fails: the table has no revision column, and no
  number recorded in it can start at 0 and grow with each revision. The table after a
  thread is saved with a first draft and then with a revised draft is the table after
  the revised draft is saved as the first one, so a number read from the table is the
  same after one revision as after none.
\<close>

theorem revision_counterexample:
  "\<not> (\<exists>revision :: db \<Rightarrow> nat.
        revision (save_email json_dumps 1 2 ''t1'' example_brief ''Meeting'' ''First draft'' ''draft'' []) = 0
      \<and> revision (save_email json_dumps 7 8 ''t1'' example_brief ''Meeting'' ''Second draft'' ''draft'' []) = 0
      \<and> revision (save_email json_dumps 1 2 ''t1'' example_brief ''Meeting'' ''First draft'' ''draft'' [])
          < revision (save_email json_dumps 7 8 ''t1'' example_brief ''Meeting'' ''Second draft'' ''draft''
               (save_email json_dumps 1 2 ''t1'' example_brief ''Meeting'' ''First draft'' ''draft'' [])))"
proof
  assume "\<exists>revision :: db \<Rightarrow> nat.
        revision (save_email json_dumps 1 2 ''t1'' example_brief ''Meeting'' ''First draft'' ''draft'' []) = 0
      \<and> revision (save_email json_dumps 7 8 ''t1'' example_brief ''Meeting'' ''Second draft'' ''draft'' []) = 0
      \<and> revision (save_email json_dumps 1 2 ''t1'' example_brief ''Meeting'' ''First draft'' ''draft'' [])
          < revision (save_email json_dumps 7 8 ''t1'' example_brief ''Meeting'' ''Second draft'' ''draft''
               (save_email json_dumps 1 2 ''t1'' example_brief ''Meeting'' ''First draft'' ''draft'' []))"
  then obtain revision :: "db \<Rightarrow> nat" where
      first: "revision (save_email json_dumps 1 2 ''t1'' example_brief ''Meeting'' ''First draft'' ''draft'' []) = 0"
    and fresh: "revision (save_email json_dumps 7 8 ''t1'' example_brief ''Meeting'' ''Second draft'' ''draft'' []) = 0"
    and grows: "revision (save_email json_dumps 1 2 ''t1'' example_brief ''Meeting'' ''First draft'' ''draft'' [])
          < revision (save_email json_dumps 7 8 ''t1'' example_brief ''Meeting'' ''Second draft'' ''draft''
               (save_email json_dumps 1 2 ''t1'' example_brief ''Meeting'' ''First draft'' ''draft'' []))"
    by blast
  have same: "save_email json_dumps 7 8 ''t1'' example_brief ''Meeting'' ''Second draft'' ''draft''
               (save_email json_dumps 1 2 ''t1'' example_brief ''Meeting'' ''First draft'' ''draft'' [])
        = save_email json_dumps 7 8 ''t1'' example_brief ''Meeting'' ''Second draft'' ''draft'' []"
    by (simp add: save_email_def insert_or_replace_def)
  from grows show False unfolding same first fresh by simp
qed

text \<open>
  C6 (amended). The service records no revision number. \<^verbatim>\<open>improve_draft\<close> returns the
  answer of the provider without its leading and trailing whitespace, nothing else,
  and touches no table; \<^verbatim>\<open>save_email\<close> replaces the record of the thread by one made of
  its arguments and the clock alone, so the table after a save does not depend on what
  was saved for the thread before.
\<close>

theorem no_revision_recorded:
  "(call_gemini_api exn_str http (improve_prompt original_draft feedback brief) = PyStr answer
      \<longrightarrow> improve_draft exn_str http original_draft feedback brief = Inr (py_strip answer))
   \<and> save_email dumps c2 u2 tid b2 s2 d2 st2 (save_email dumps c1 u1 tid b1 s1 d1 st1 rows)
     = save_email dumps c2 u2 tid b2 s2 d2 st2 rows"
  by (simp add: improve_draft_def save_email_def insert_or_replace_def)

text \<open>The provider answers with an improved body between blank lines.\<close>

theorem no_revision_recorded_witness:
  "call_gemini_api (\<lambda>e. ''e'')
       (\<lambda>p. JsonBody (PyDict [(''candidates'',
          PyList [PyDict [(''content'',
            PyDict [(''parts'',
              PyList [PyDict [(''text'', PyStr ([CHR 0x0A] @ ''Dear all, see you on Monday.'' @ [CHR 0x0A]))]])])]])]))
       (improve_prompt ''Dear all'' ''Name the day'' example_brief)
     = PyStr ([CHR 0x0A] @ ''Dear all, see you on Monday.'' @ [CHR 0x0A])
   \<and> improve_draft (\<lambda>e. ''e'')
       (\<lambda>p. JsonBody (PyDict [(''candidates'',
          PyList [PyDict [(''content'',
            PyDict [(''parts'',
              PyList [PyDict [(''text'', PyStr ([CHR 0x0A] @ ''Dear all, see you on Monday.'' @ [CHR 0x0A]))]])])]])]))
       ''Dear all'' ''Name the day'' example_brief
     = Inr ''Dear all, see you on Monday.''"
proof -
  let ?http = "\<lambda>p :: string. JsonBody (PyDict [(''candidates'',
          PyList [PyDict [(''content'',
            PyDict [(''parts'',
              PyList [PyDict [(''text'', PyStr ([CHR 0x0A] @ ''Dear all, see you on Monday.'' @ [CHR 0x0A]))]])])]])])"
  have answer: "call_gemini_api (\<lambda>e. ''e'') ?http (improve_prompt ''Dear all'' ''Name the day'' example_brief)
     = PyStr ([CHR 0x0A] @ ''Dear all, see you on Monday.'' @ [CHR 0x0A])"
    by (simp add: call_gemini_api_def candidate_text_def bind_exn_def)
  have strip: "py_strip ([CHR 0x0A] @ ''Dear all, see you on Monday.'' @ [CHR 0x0A])
     = ''Dear all, see you on Monday.''"
    by (simp add: py_strip_def py_isspace_def)
  from no_revision_recorded [where exn_str = "\<lambda>e. ''e''" and http = ?http
        and original_draft = "''Dear all''" and feedback = "''Name the day''" and brief = example_brief
        and answer = "[CHR 0x0A] @ ''Dear all, see you on Monday.'' @ [CHR 0x0A]"] answer
  have "improve_draft (\<lambda>e. ''e'') ?http ''Dear all'' ''Name the day'' example_brief
     = Inr (py_strip ([CHR 0x0A] @ ''Dear all, see you on Monday.'' @ [CHR 0x0A]))"
    by blast
  with answer strip show ?thesis by simp
qed

subsection \<open>\<^verbatim>\<open>get_email_history\<close>\<close>

lemma mset_insert_desc: "mset (insert_desc x ys) = add_mset x (mset ys)"
  by (induction ys) auto

lemma set_insert_desc: "set (insert_desc x ys) = insert x (set ys)"
  by (induction ys) auto

lemma sorted_insert_desc:
  "sorted_wrt (\<lambda>a b. created_at b \<le> created_at a) ys \<Longrightarrow>
   sorted_wrt (\<lambda>a b. created_at b \<le> created_at a) (insert_desc x ys)"
  by (induction ys) (auto simp: set_insert_desc)

lemma mset_foldl_insert_desc:
  "mset (foldl (\<lambda>sorted r. insert_desc r sorted) acc rows) = mset acc + mset rows"
  by (induction rows arbitrary: acc) (auto simp: mset_insert_desc)

lemma sorted_foldl_insert_desc:
  "sorted_wrt (\<lambda>a b. created_at b \<le> created_at a) acc \<Longrightarrow>
   sorted_wrt (\<lambda>a b. created_at b \<le> created_at a) (foldl (\<lambda>sorted r. insert_desc r sorted) acc rows)"
  by (induction rows arbitrary: acc) (auto simp: sorted_insert_desc)

text \<open>
  C9. For every state of the table, \<^verbatim>\<open>get_email_history\<close> returns all its records, each
  as often as it is stored, and in the returned list no record stands before one with
  a later \<^verbatim>\<open>created_at\<close>: newest first.
\<close>

theorem get_email_history_newest_first:
  "mset (get_email_history rows) = mset rows
   \<and> sorted_wrt (\<lambda>a b. created_at b \<le> created_at a) (get_email_history rows)"
  by (simp add: get_email_history_def order_by_created_at_desc_def
        mset_foldl_insert_desc sorted_foldl_insert_desc)

end
